theory Spec2Isabelle
  imports Complex_Main "HOL-Library.Sublist"
begin

section \<open>Python values, exceptions and text\<close>

text \<open>
  The exceptions the modelled code can raise or meet, each with its message (for
  \<open>KeyError\<close>: the missing key). \<open>OtherException\<close> stands for any other class that
  derives from \<open>Exception\<close>. \<open>SystemExit\<close>, \<open>KeyboardInterrupt\<close> and \<open>GeneratorExit\<close>
  derive from \<open>BaseException\<close> only: a handler \<open>except Exception\<close> does not catch
  them.
\<close>

datatype exn =
    TaskValidationException string
  | KeyError string
  | IndexError string
  | ValueError string
  | TypeError string
  | NotImplementedError string
  | OtherException string
  | SystemExit string
  | KeyboardInterrupt string
  | GeneratorExit string

text \<open>\<open>isinstance(e, Exception)\<close>: what \<open>except Exception\<close> catches.\<close>

definition is_Exception :: "exn \<Rightarrow> bool" where
  "is_Exception e =
     (case e of
        SystemExit m \<Rightarrow> False
      | KeyboardInterrupt m \<Rightarrow> False
      | GeneratorExit m \<Rightarrow> False
      | _ \<Rightarrow> True)"

text \<open>
  Attribute values are dynamically typed. The value universe covers what the source
  mentions: \<open>None\<close>, \<open>int\<close>, \<open>str\<close>, \<open>bool\<close> and the three container types
  \<open>list\<close>, \<open>set\<close>, \<open>dict\<close> that \<open>export_to_command_line\<close> tests for. A set or dict is
  kept as the list of its elements in iteration order, which is the order \<open>repr\<close> prints.
  Characters are code points below 256.
\<close>

datatype pyval =
    PNone
  | PBool bool
  | PInt int
  | PStr string
  | PList "pyval list"
  | PSet "pyval list"
  | PDict "(pyval \<times> pyval) list"

subsection \<open>Decimal text of an integer\<close>

definition digit_char :: "nat \<Rightarrow> char" where
  "digit_char d = ''0123456789'' ! d"

fun nat_digits :: "nat \<Rightarrow> string" where
  "nat_digits n = (if n < 10 then [digit_char n] else nat_digits (n div 10) @ [digit_char (n mod 10)])"

declare nat_digits.simps [simp del]

definition str_int :: "int \<Rightarrow> string" where
  "str_int i = (if i < 0 then CHR ''-'' # nat_digits (nat (- i)) else nat_digits (nat i))"

subsection \<open>\<open>repr\<close> and \<open>str\<close>\<close>

definition hex_digit :: "nat \<Rightarrow> char" where
  "hex_digit d = ''0123456789abcdef'' ! d"

definition printable :: "char \<Rightarrow> bool" where
  "printable c = (let n = (of_char c :: nat) in (32 \<le> n \<and> n < 127) \<or> (161 \<le> n \<and> n \<noteq> 173))"

definition escape_char :: "char \<Rightarrow> char \<Rightarrow> string" where
  "escape_char q c =
     (if c = q \<or> c = CHR 0x5C then [CHR 0x5C, c]
      else if c = CHR 0x09 then [CHR 0x5C, CHR ''t'']
      else if c = CHR 0x0A then [CHR 0x5C, CHR ''n'']
      else if c = CHR 0x0D then [CHR 0x5C, CHR ''r'']
      else if printable c then [c]
      else [CHR 0x5C, CHR ''x'', hex_digit ((of_char c :: nat) div 16), hex_digit ((of_char c :: nat) mod 16)])"

definition repr_str :: "string \<Rightarrow> string" where
  "repr_str s =
     (let q = (if CHR 0x27 \<in> set s \<and> CHR 0x22 \<notin> set s then CHR 0x22 else CHR 0x27)
      in q # concat (map (escape_char q) s) @ [q])"

fun join :: "string \<Rightarrow> string list \<Rightarrow> string" where
  "join sep [] = []"
| "join sep [x] = x"
| "join sep (x # y # ys) = x @ sep @ join sep (y # ys)"

primrec py_repr :: "pyval \<Rightarrow> string" where
  "py_repr PNone = ''None''"
| "py_repr (PBool b) = (if b then ''True'' else ''False'')"
| "py_repr (PInt i) = str_int i"
| "py_repr (PStr s) = repr_str s"
| "py_repr (PList xs) = ''['' @ join '', '' (map py_repr xs) @ '']''"
| "py_repr (PSet xs) = (if xs = [] then ''set()'' else ''{'' @ join '', '' (map py_repr xs) @ ''}'')"
| "py_repr (PDict kvs) =
     ''{'' @ join '', '' (map (\<lambda>(k, v). k @ '': '' @ v) (map (map_prod py_repr py_repr) kvs)) @ ''}''"

definition py_str :: "pyval \<Rightarrow> string" where
  "py_str v = (case v of PStr s \<Rightarrow> s | _ \<Rightarrow> py_repr v)"

definition str_exn :: "exn \<Rightarrow> string" where
  "str_exn e = (case e of
       TaskValidationException m \<Rightarrow> m
     | KeyError k \<Rightarrow> repr_str k
     | IndexError m \<Rightarrow> m
     | ValueError m \<Rightarrow> m
     | TypeError m \<Rightarrow> m
     | NotImplementedError m \<Rightarrow> m
     | OtherException m \<Rightarrow> m
     | SystemExit m \<Rightarrow> m
     | KeyboardInterrupt m \<Rightarrow> m
     | GeneratorExit m \<Rightarrow> m)"

text \<open>A text between apostrophes, as it stands in messages.\<close>

definition quoted :: "string \<Rightarrow> string" where
  "quoted s = CHR 0x27 # s @ [CHR 0x27]"

subsection \<open>\<open>str.format\<close>\<close>

text \<open>
  \<open>template.format(*args, **kwargs)\<close> for the replacement fields the source uses:
  \<open>{}\<close> (automatic numbering), \<open>{N}\<close> (a positional index) and \<open>{name}\<close> (a keyword),
  with \<open>{{\<close> and \<open>}}\<close> as escaped braces. A field is looked up when its closing brace
  is read, left to right, so the first field that cannot be resolved raises: a keyword
  that is not among \<open>kwargs\<close> raises \<open>KeyError\<close>, a position beyond \<open>args\<close> raises
  \<open>IndexError\<close>. Values are rendered with \<open>str\<close>. Format specifications, conversions,
  attribute access and nested fields appear in no template of the source; the text
  between the braces is read as the field's name.
\<close>

datatype numbering = Unset | Automatic nat | Manual

definition is_digit :: "char \<Rightarrow> bool" where
  "is_digit c = (c \<in> set ''0123456789'')"

definition digits_nat :: "string \<Rightarrow> nat" where
  "digits_nat s = foldl (\<lambda>n c. 10 * n + ((of_char c :: nat) - 48)) 0 s"

definition get_value :: "pyval list \<Rightarrow> (string \<times> pyval) list \<Rightarrow> numbering \<Rightarrow> string
    \<Rightarrow> exn + (pyval \<times> numbering)" where
  "get_value args kwargs num field =
     (if field = [] then
        (case num of
           Manual \<Rightarrow> Inl (ValueError ''cannot switch from manual field specification to automatic field numbering'')
         | _ \<Rightarrow>
           (let i = (case num of Automatic k \<Rightarrow> k | _ \<Rightarrow> 0) in
            if i < length args then Inr (args ! i, Automatic (Suc i))
            else Inl (IndexError (''Replacement index '' @ nat_digits i @ '' out of range for positional args tuple''))))
      else if list_all is_digit field then
        (case num of
           Automatic k \<Rightarrow> Inl (ValueError ''cannot switch from automatic field numbering to manual field specification'')
         | _ \<Rightarrow>
           (let i = digits_nat field in
            if i < length args then Inr (args ! i, Manual)
            else Inl (IndexError (''Replacement index '' @ nat_digits i @ '' out of range for positional args tuple''))))
      else
        (case map_of kwargs field of
           None \<Rightarrow> Inl (KeyError field)
         | Some v \<Rightarrow> Inr (v, num)))"

definition emit :: "string \<Rightarrow> exn + string \<Rightarrow> exn + string" where
  "emit s r = (case r of Inl e \<Rightarrow> Inl e | Inr t \<Rightarrow> Inr (s @ t))"

fun format_fields :: "pyval list \<Rightarrow> (string \<times> pyval) list \<Rightarrow> numbering \<Rightarrow> string option
    \<Rightarrow> string \<Rightarrow> exn + string" where
  "format_fields args kwargs num None [] = Inr []"
| "format_fields args kwargs num (Some f) [] = Inl (ValueError (''expected '' @ quoted ''}'' @ '' before end of string''))"
| "format_fields args kwargs num None (c # cs) =
     (if c = CHR 0x7B then
        (case cs of
           [] \<Rightarrow> Inl (ValueError (''Single '' @ quoted ''{'' @ '' encountered in format string''))
         | d # ds \<Rightarrow>
             if d = CHR 0x7B then emit [CHR 0x7B] (format_fields args kwargs num None ds)
             else format_fields args kwargs num (Some []) cs)
      else if c = CHR 0x7D then
        (case cs of
           [] \<Rightarrow> Inl (ValueError (''Single '' @ quoted ''}'' @ '' encountered in format string''))
         | d # ds \<Rightarrow>
             if d = CHR 0x7D then emit [CHR 0x7D] (format_fields args kwargs num None ds)
             else Inl (ValueError (''Single '' @ quoted ''}'' @ '' encountered in format string'')))
      else emit [c] (format_fields args kwargs num None cs))"
| "format_fields args kwargs num (Some f) (c # cs) =
     (if c = CHR 0x7D then
        (case get_value args kwargs num f of
           Inl e \<Rightarrow> Inl e
         | Inr (v, num') \<Rightarrow> emit (py_str v) (format_fields args kwargs num' None cs))
      else format_fields args kwargs num (Some (f @ [c])) cs)"

definition py_format :: "string \<Rightarrow> pyval list \<Rightarrow> (string \<times> pyval) list \<Rightarrow> exn + string" where
  "py_format template args kwargs = format_fields args kwargs Unset None template"


section \<open>Tasks\<close>

text \<open>
  A task instance, with the fields the source reads and writes. \<open>start_frame\<close>,
  \<open>end_frame\<close> and \<open>chunk_size\<close> are declared with \<open>attribute_type=int\<close>; the first two
  default to \<open>None\<close>, so they are optional integers (Python's unbounded \<open>int\<close>).
  \<open>class_name\<close> is \<open>self.__class__.__name__\<close>.
\<close>

record task =
  class_name :: string
  name :: string
  dependencies :: "string list"
  replacements :: "(string \<times> string) list"
  temp_dir :: "string option"
  command_line_executable :: "string option"
  command_line_executable_args :: "string option"
  start_frame :: "int option"
  end_frame :: "int option"
  chunk_size :: "int option"

text \<open>
  An attribute descriptor (\<open>TaskAttribute\<close>). The descriptors are declared on the
  class, so the table \<open>task_attributes\<close> (attribute name and descriptor, in declaration
  order) is an argument of the operations that walk it. \<open>attr_get\<close> is
  \<open>attribute_obj.__get__(self)\<close>.
\<close>

record task_attribute =
  default_value :: pyval
  configurable :: bool
  attribute_type :: string
  required :: bool
  serialize :: bool
  description :: string
  attr_get :: "task \<Rightarrow> pyval"

definition int_val :: "int option \<Rightarrow> pyval" where
  "int_val v = (case v of None \<Rightarrow> PNone | Some i \<Rightarrow> PInt i)"

definition str_val :: "string option \<Rightarrow> pyval" where
  "str_val v = (case v of None \<Rightarrow> PNone | Some s \<Rightarrow> PStr s)"

text \<open>
  The three attributes that \<open>SequenceTask\<close> declares (lines 20 to 25 of
  \<open>sequence_task.py\<close>). The class \<open>TaskAttribute\<close> is not among the sources, so the
  values of \<open>required\<close> and \<open>serialize\<close> for a declaration that does not pass them are
  arguments here.
\<close>

definition SequenceTask_attributes :: "bool \<Rightarrow> bool \<Rightarrow> (string \<times> task_attribute) list" where
  "SequenceTask_attributes required_default serialize_default =
     [(''start_frame'',
       \<lparr>default_value = PNone, configurable = True, attribute_type = ''int'', required = True,
        serialize = serialize_default, description = ''frame to start the task from.'',
        attr_get = (\<lambda>self. int_val (start_frame self))\<rparr>),
      (''end_frame'',
       \<lparr>default_value = PNone, configurable = True, attribute_type = ''int'', required = True,
        serialize = serialize_default, description = ''frame to end the task from.'',
        attr_get = (\<lambda>self. int_val (end_frame self))\<rparr>),
      (''chunk_size'',
       \<lparr>default_value = PInt 8, configurable = True, attribute_type = ''int'',
        required = required_default, serialize = serialize_default,
        description = ''Number of frames to split each task into for running on multiple machines. 0 to perform no chunking'',
        attr_get = (\<lambda>self. int_val (chunk_size self))\<rparr>)]"

subsection \<open>Integer operations on attribute values\<close>

text \<open>
  Arithmetic and comparison on a value that is \<open>None\<close> raise \<open>TypeError\<close>
  (Python 3).
\<close>

definition type_name :: "int option \<Rightarrow> string" where
  "type_name v = (case v of None \<Rightarrow> ''NoneType'' | Some i \<Rightarrow> ''int'')"

definition operand_error :: "string \<Rightarrow> int option \<Rightarrow> int option \<Rightarrow> exn" where
  "operand_error opr a b =
     TypeError (''unsupported operand type(s) for '' @ opr @ '': '' @ quoted (type_name a)
                @ '' and '' @ quoted (type_name b))"

definition add_int :: "int option \<Rightarrow> int option \<Rightarrow> exn + int" where
  "add_int a b = (case (a, b) of (Some x, Some y) \<Rightarrow> Inr (x + y) | _ \<Rightarrow> Inl (operand_error ''+'' a b))"

definition sub_int :: "int option \<Rightarrow> int option \<Rightarrow> exn + int" where
  "sub_int a b = (case (a, b) of (Some x, Some y) \<Rightarrow> Inr (x - y) | _ \<Rightarrow> Inl (operand_error ''-'' a b))"

definition lt_int :: "int option \<Rightarrow> int option \<Rightarrow> exn + bool" where
  "lt_int a b =
     (case (a, b) of
        (Some x, Some y) \<Rightarrow> Inr (x < y)
      | _ \<Rightarrow> Inl (TypeError (quoted ''<'' @ '' not supported between instances of ''
                             @ quoted (type_name a) @ '' and '' @ quoted (type_name b))))"

text \<open>\<open>min(a, b)\<close> returns \<open>b\<close> when \<open>b < a\<close> and \<open>a\<close> otherwise.\<close>

definition min_int :: "int option \<Rightarrow> int option \<Rightarrow> exn + int option" where
  "min_int a b = (case lt_int b a of Inl e \<Rightarrow> Inl e | Inr smaller \<Rightarrow> Inr (if smaller then b else a))"

text \<open>\<open>range(a, b)\<close>: the integers from \<open>a\<close> up to \<open>b - 1\<close>.\<close>

definition py_range :: "int option \<Rightarrow> int \<Rightarrow> exn + int list" where
  "py_range a b =
     (case a of
        None \<Rightarrow> Inl (TypeError (quoted ''NoneType'' @ '' object cannot be interpreted as an integer''))
      | Some x \<Rightarrow> Inr [x..b - 1])"

text \<open>A string or \<open>None\<close> is false in a condition when it is \<open>None\<close> or empty.\<close>

definition falsy :: "string option \<Rightarrow> bool" where
  "falsy v = (case v of None \<Rightarrow> True | Some s \<Rightarrow> s = [])"

section \<open>\<open>SequenceTask.validate\<close>\<close>

text \<open>
  Modelled from the spec: \<open>Task.validate\<close>, the base-class check that
  \<open>SequenceTask.validate\<close> calls first, is not among the sources. The spec says that it
  iterates the declared attributes and fails with a validation error if a required
  attribute's resolved value is null. The text of the message is not given.
\<close>

fun Task_validate :: "(string \<times> task_attribute) list \<Rightarrow> task \<Rightarrow> exn + unit" where
  "Task_validate [] self = Inr ()"
| "Task_validate ((attribute_name, attribute_obj) # rest) self =
     (if required attribute_obj \<and> attr_get attribute_obj self = PNone
      then Inl (TaskValidationException (''Missing required attribute: '' @ attribute_name))
      else Task_validate rest self)"

definition validate :: "(string \<times> task_attribute) list \<Rightarrow> task \<Rightarrow> exn + unit" where
  "validate task_attributes self =
     (case Task_validate task_attributes self of
        Inl e \<Rightarrow> Inl e
      | Inr u \<Rightarrow>
     (case lt_int (chunk_size self) (Some 0) of
        Inl e \<Rightarrow> Inl e
      | Inr negative_chunk \<Rightarrow>
     if negative_chunk then Inl (TaskValidationException ''Chunk size must be a positive number'')
     else
     (case lt_int (end_frame self) (start_frame self) of
        Inl e \<Rightarrow> Inl e
      | Inr inverted \<Rightarrow>
     if inverted then
       (case py_format ''Invalid Frame Range: {start_frame} - {end_frame}''
               [int_val (end_frame self), int_val (start_frame self)] [] of
          Inl e \<Rightarrow> Inl e
        | Inr message \<Rightarrow> Inl (TaskValidationException message))
     else
     (case lt_int (end_frame self) (Some 0) of
        Inl e \<Rightarrow> Inl e
      | Inr end_negative \<Rightarrow>
     (case (if end_negative then Inr True else lt_int (start_frame self) (Some 0)) of
        Inl e \<Rightarrow> Inl e
      | Inr negative \<Rightarrow>
     if negative then
       (case py_format ''Invalid Frame Range (Negative frame numbers not allowed): {start_frame} - {end_frame}''
               [int_val (end_frame self), int_val (start_frame self)] [] of
          Inl e \<Rightarrow> Inl e
        | Inr message \<Rightarrow> Inl (TaskValidationException message))
     else Inr ())))))"

section \<open>\<open>SequenceTask.__call__\<close>\<close>

text \<open>
  \<open>setup\<close> and \<open>run\<close> are supplied by the concrete task type; they act on a state
  \<open>'s\<close> (the instance together with whatever else they touch) and may raise. The
  state's instance is read through \<open>self_of\<close>. The messages passed to
  \<open>logging.error\<close> are returned as the log; \<open>traceback.print_exc()\<close> only prints.
  \<open>setup()\<close> is called outside the \<open>try\<close>, so what it raises leaves the call. The
  handler is \<open>except Exception\<close>: an exception of the \<open>try\<close> block that derives from
  \<open>Exception\<close> is logged and turned into the result 1, any other one leaves the call.
\<close>

fun run_frames :: "(int \<Rightarrow> 's \<Rightarrow> (exn + int) \<times> 's) \<Rightarrow> int list \<Rightarrow> int list \<Rightarrow> int \<Rightarrow> 's
    \<Rightarrow> (exn + (int list \<times> int)) \<times> 's" where
  "run_frames run [] failed_frames success st = (Inr (failed_frames, success), st)"
| "run_frames run (frame # frames) failed_frames success st =
     (case run frame st of
        (Inl e, st') \<Rightarrow> (Inl e, st')
      | (Inr result, st') \<Rightarrow>
          if result \<noteq> 0 then run_frames run frames (failed_frames @ [frame]) 1 st'
          else run_frames run frames failed_frames success st')"

definition call_body :: "('s \<Rightarrow> task) \<Rightarrow> (int \<Rightarrow> 's \<Rightarrow> (exn + int) \<times> 's) \<Rightarrow> 's
    \<Rightarrow> (exn + (int list \<times> int)) \<times> 's" where
  "call_body self_of run st =
     (case add_int (end_frame (self_of st)) (Some 1) of
        Inl e \<Rightarrow> (Inl e, st)
      | Inr stop \<Rightarrow>
     (case py_range (start_frame (self_of st)) stop of
        Inl e \<Rightarrow> (Inl e, st)
      | Inr frames \<Rightarrow> run_frames run frames [] 0 st))"

definition call :: "('s \<Rightarrow> task) \<Rightarrow> ('s \<Rightarrow> (exn + unit) \<times> 's) \<Rightarrow> (int \<Rightarrow> 's \<Rightarrow> (exn + int) \<times> 's)
    \<Rightarrow> 's \<Rightarrow> (exn + int) \<times> string list \<times> 's" where
  "call self_of setup run st =
     (case setup st of
        (Inl e, st1) \<Rightarrow> (Inl e, [], st1)
      | (Inr u, st1) \<Rightarrow>
     (case call_body self_of run st1 of
        (Inl e, st2) \<Rightarrow>
          if is_Exception e then
            (Inr 1,
             [''Run method for task '' @ quoted (name (self_of st2)) @ '' Failed. Reason: '' @ str_exn e],
             st2)
          else (Inl e, [], st2)
      | (Inr (failed_frames, success), st2) \<Rightarrow>
          if success \<noteq> 0 then
            (case py_format (''Run method for task '' @ quoted ''{name}'' @ '' Failed for frames: {failed_frames}.'')
                    [] [(''name'', PStr (name (self_of st2))),
                        (''failed_frames'', PList (map PInt failed_frames))] of
               Inl e \<Rightarrow> (Inl e, [], st2)
             | Inr message \<Rightarrow> (Inr success, [message], st2))
          else (Inr success, [], st2)))"


section \<open>\<open>SequenceTask.export_to_command_line\<close>\<close>

definition is_container :: "pyval \<Rightarrow> bool" where
  "is_container v = (case v of PList xs \<Rightarrow> True | PSet xs \<Rightarrow> True | PDict kvs \<Rightarrow> True | _ \<Rightarrow> False)"

text \<open>The loop over \<open>self.task_attributes.items()\<close>, with \<open>arg_str\<close> as accumulator.\<close>

fun export_args :: "bool \<Rightarrow> (string \<times> task_attribute) list \<Rightarrow> task \<Rightarrow> string \<Rightarrow> exn + string" where
  "export_args deadline [] self arg_str = Inr arg_str"
| "export_args deadline ((attribute_name, attribute_obj) # rest) self arg_str =
     (if \<not> serialize attribute_obj then export_args deadline rest self arg_str
      else
        let v = attr_get attribute_obj self in
        if v = PNone then export_args deadline rest self arg_str
        else
          let v1 = (if deadline \<and> attribute_name = ''start_frame'' then PStr ''<STARTFRAME>''
                    else if deadline \<and> attribute_name = ''end_frame'' then PStr ''<ENDFRAME>''
                    else v);
              v2 = (if is_container v1 then PStr (py_repr v1) else v1)
          in
            (case py_format ''{arg_str} --{attribute_name} {value}'' []
                    [(''arg_str'', PStr arg_str), (''attribute_name'', PStr attribute_name),
                     (''value'', PStr (py_repr v2))] of
               Inl e \<Rightarrow> Inl e
             | Inr arg_str' \<Rightarrow> export_args deadline rest self arg_str'))"

text \<open>
  The result is the pair \<open>(self, command)\<close> together with the instance after the call
  (the same object in Python).
\<close>

definition export_to_command_line :: "(string \<times> task_attribute) list \<Rightarrow> string option \<Rightarrow> bool \<Rightarrow> task
    \<Rightarrow> (exn + (task \<times> string)) \<times> task" where
  "export_to_command_line task_attributes tmp deadline self0 =
     (let self = (if falsy (temp_dir self0) then self0\<lparr>temp_dir := tmp\<rparr> else self0) in
      case export_args deadline task_attributes self [] of
        Inl e \<Rightarrow> (Inl e, self)
      | Inr arg_str \<Rightarrow>
          (case py_format ''{executable} {executable_args} --task_name {task_type} {task_args}'' []
                  [(''executable'', str_val (command_line_executable self)),
                   (''executable_args'',
                      (if falsy (command_line_executable_args self) then PStr []
                       else str_val (command_line_executable_args self))),
                   (''task_type'', PStr (class_name self)),
                   (''task_args'', PStr arg_str)] of
             Inl e \<Rightarrow> (Inl e, self)
           | Inr command \<Rightarrow> (Inr (self, command), self)))"

section \<open>\<open>SequenceTask.export_to_python_script\<close>\<close>

text \<open>
  \<open>Task.export_to_python_script\<close>, the generic exporter of the base class, is not among
  the sources: it is the argument \<open>Task_export\<close>, called as
  \<open>Task_export self job_name tmp\<close>. It returns an exported artifact of type \<open>'r\<close> or
  raises, and the instance it was called on as it leaves it.
\<close>

text \<open>
  Modelled from the spec: \<open>Task.copy\<close> is not among the sources. The spec says that a
  chunk is a clone of the parent instance, so the copy has the parent's field values
  and is independent of the parent: what the exporter does to the copy does not reach
  the parent.
\<close>

definition Task_copy :: "task \<Rightarrow> task" where
  "Task_copy self = self"

text \<open>
  With \<open>chunk_size == 0\<close> the method returns what the base exporter returns; otherwise
  it returns the list of what the exporter returned for each chunk.
\<close>

datatype 'r exported = Single 'r | Chunks "'r list"

text \<open>
  The statements of the loop body before the copy: they narrow \<open>self\<close> to the next
  chunk. \<open>end0\<close> and \<open>name0\<close> are the locals \<open>end_frame\<close> and \<open>name\<close> saved before the
  loop. A statement that raises leaves the earlier assignments in place.
\<close>

definition chunk_body :: "int option \<Rightarrow> string \<Rightarrow> task \<Rightarrow> (exn + unit) \<times> task" where
  "chunk_body end0 name0 self0 =
     (case add_int (end_frame self0) (Some 1) of
        Inl e \<Rightarrow> (Inl e, self0)
      | Inr s \<Rightarrow>
     (let self1 = self0\<lparr>start_frame := Some s\<rparr> in
      case add_int (start_frame self1) (chunk_size self1) of
        Inl e \<Rightarrow> (Inl e, self1)
      | Inr a \<Rightarrow>
     (case sub_int (Some a) (Some 1) of
        Inl e \<Rightarrow> (Inl e, self1)
      | Inr b \<Rightarrow>
     (case min_int (Some b) end0 of
        Inl e \<Rightarrow> (Inl e, self1)
      | Inr m \<Rightarrow>
     (let self2 = self1\<lparr>end_frame := m\<rparr> in
      case py_format ''{}-{}'' [int_val (start_frame self2), int_val (end_frame self2)] [] of
        Inl e \<Rightarrow> (Inl e, self2)
      | Inr frame_str \<Rightarrow>
     (case py_format ''{}_{}'' [PStr name0, PStr frame_str] [] of
        Inl e \<Rightarrow> (Inl e, self2)
      | Inr n \<Rightarrow> (Inr (), self2\<lparr>name := n\<rparr>)))))))"

text \<open>
  The \<open>while\<close> loop. It need not terminate (a negative \<open>chunk_size\<close> moves
  \<open>self.end_frame\<close> backwards), so the result is optional: \<open>None\<close> is a loop that runs
  forever.
\<close>

partial_function (option) chunk_loop :: "(task \<Rightarrow> string \<Rightarrow> string option \<Rightarrow> (exn + 'r) \<times> task)
    \<Rightarrow> string \<Rightarrow> string option \<Rightarrow> int option \<Rightarrow> string \<Rightarrow> 'r list \<Rightarrow> task
    \<Rightarrow> ((exn + 'r list) \<times> task) option" where
  "chunk_loop Task_export job_name tmp end0 name0 tasks self =
     (case lt_int (end_frame self) end0 of
        Inl e \<Rightarrow> Some (Inl e, self)
      | Inr continue \<Rightarrow>
          if \<not> continue then Some (Inr tasks, self)
          else
            (case chunk_body end0 name0 self of
               (Inl e, self') \<Rightarrow> Some (Inl e, self')
             | (Inr u, self') \<Rightarrow>
                 (case fst (Task_export (Task_copy self') job_name tmp) of
                    Inl e \<Rightarrow> Some (Inl e, self')
                  | Inr exported \<Rightarrow>
                      chunk_loop Task_export job_name tmp end0 name0 (tasks @ [exported]) self')))"

declare chunk_loop.simps [code]

definition export_to_python_script :: "(task \<Rightarrow> string \<Rightarrow> string option \<Rightarrow> (exn + 'r) \<times> task)
    \<Rightarrow> string \<Rightarrow> string option \<Rightarrow> task \<Rightarrow> ((exn + 'r exported) \<times> task) option" where
  "export_to_python_script Task_export job_name tmp self =
     (if chunk_size self = Some 0 then
        (case Task_export self job_name tmp of
           (Inl e, self') \<Rightarrow> Some (Inl e, self')
         | (Inr r, self') \<Rightarrow> Some (Inr (Single r), self'))
      else
        let start0 = start_frame self; end0 = end_frame self; name0 = name self in
        (case sub_int start0 (Some 1) of
           Inl e \<Rightarrow> Some (Inl e, self)
         | Inr v \<Rightarrow>
             (case chunk_loop Task_export job_name tmp end0 name0 [] (self\<lparr>end_frame := Some v\<rparr>) of
                None \<Rightarrow> None
              | Some (Inl e, self') \<Rightarrow> Some (Inl e, self')
              | Some (Inr tasks, self') \<Rightarrow>
                  Some (Inr (Chunks tasks),
                        self'\<lparr>start_frame := start0, end_frame := end0, name := name0\<rparr>))))"


section \<open>The instance of the repository's tests\<close>

text \<open>
  \<open>TestSequence(name="Task1", start_frame=10, end_frame=25, dependencies=[],
  replacements={}, command_line_executable="test")\<close> of
  \<open>tests/test_export_sequence_task.py\<close>; \<open>chunk_size\<close> has its declared default 8.
\<close>

definition Task1 :: task where
  "Task1 = \<lparr>class_name = ''TestSequence'', name = ''Task1'', dependencies = [], replacements = [],
     temp_dir = None, command_line_executable = Some ''test'', command_line_executable_args = None,
     start_frame = Some 10, end_frame = Some 25, chunk_size = Some 8\<rparr>"

section \<open>The Chunking Engine of the specification\<close>

text \<open>
  The algorithm of the specification as a function: from the cursor \<open>s\<close> (the next
  chunk's first frame) it lists the sub-ranges \<open>(chunkStart, chunkEnd)\<close> up to the last
  frame \<open>e\<close>, for the chunk size \<open>c\<close>. The loop of \<open>export_to_python_script\<close> is compared
  with it below.
\<close>

function chunk_ranges :: "int \<Rightarrow> int \<Rightarrow> int \<Rightarrow> (int \<times> int) list" where
  "chunk_ranges c e s =
     (if 0 < c \<and> s \<le> e then (s, min (s + c - 1) e) # chunk_ranges c e (min (s + c - 1) e + 1)
      else [])"
  by pat_completeness auto
termination
  by (relation "measure (\<lambda>(c, e, s). nat (e + 1 - s))") auto

declare chunk_ranges.simps [simp del]

text \<open>The chunk of a sub-range: the instance narrowed to it, with the suffixed name.\<close>

definition chunk_of :: "task \<Rightarrow> string \<Rightarrow> int \<times> int \<Rightarrow> task" where
  "chunk_of self name0 r =
     self\<lparr>start_frame := Some (fst r), end_frame := Some (snd r),
          name := name0 @ ''_'' @ str_int (fst r) @ ''-'' @ str_int (snd r)\<rparr>"

text \<open>
  Two exporters for worked examples: one that names the script from the job and the
  task and never fails, and one that cannot write the script of the chunk that starts
  at frame 18.
\<close>

definition record_export :: "task \<Rightarrow> string \<Rightarrow> string option \<Rightarrow> (exn + string) \<times> task" where
  "record_export t job tmp = (Inr (job @ ''_'' @ name t @ ''.py''), t)"

definition failing_export :: "task \<Rightarrow> string \<Rightarrow> string option \<Rightarrow> (exn + string) \<times> task" where
  "failing_export t job tmp =
     (if start_frame t = Some 18 then (Inl (OtherException ''cannot write script''), t)
      else record_export t job tmp)"

section \<open>The command line of the specification\<close>

text \<open>
  The command line as the specification words it. The value of a pair is quoted by
  \<open>repr\<close>; a list, set or dict is first rendered by \<open>repr\<close> and that text is quoted.
\<close>

definition quoted_value :: "pyval \<Rightarrow> string" where
  "quoted_value v = py_repr (if is_container v then PStr (py_repr v) else v)"

text \<open>
  The declared attributes that are exported, in declaration order, with the exported
  value: those with \<open>serialize\<close> set and a non-null resolved value; in placeholder mode
  \<open>start_frame\<close> and \<open>end_frame\<close> carry the farm tokens.
\<close>

definition exported_attributes :: "bool \<Rightarrow> (string \<times> task_attribute) list \<Rightarrow> task \<Rightarrow> (string \<times> pyval) list" where
  "exported_attributes deadline attrs self =
     map (\<lambda>(n, a). (n, if deadline \<and> n = ''start_frame'' then PStr ''<STARTFRAME>''
                        else if deadline \<and> n = ''end_frame'' then PStr ''<ENDFRAME>''
                        else attr_get a self))
         (filter (\<lambda>(n, a). serialize a \<and> attr_get a self \<noteq> PNone) attrs)"

text \<open>\<open>"{executable} {executableArgs} --task_name {taskTypeName} "\<close>, up to the arguments.\<close>

definition command_head :: "task \<Rightarrow> string" where
  "command_head self =
     (case command_line_executable self of None \<Rightarrow> ''None'' | Some x \<Rightarrow> x) @ '' ''
     @ (case command_line_executable_args self of None \<Rightarrow> [] | Some a \<Rightarrow> a)
     @ '' --task_name '' @ class_name self @ '' ''"

text \<open>
  The final command string of the specification: the head followed by the
  \<open>--{attributeName} {quotedValue}\<close> pairs joined by single spaces.
\<close>

definition spec_command_line :: "bool \<Rightarrow> (string \<times> task_attribute) list \<Rightarrow> task \<Rightarrow> string" where
  "spec_command_line deadline attrs self =
     command_head self
     @ join '' '' (map (\<lambda>(n, v). ''--'' @ n @ '' '' @ quoted_value v) (exported_attributes deadline attrs self))"

text \<open>
  An attribute table for a worked example: the attributes of \<open>SequenceTask\<close> followed by
  a serialised list attribute and a serialised \<open>temp_dir\<close>.
\<close>

definition example_attributes :: "(string \<times> task_attribute) list" where
  "example_attributes =
     SequenceTask_attributes False True
     @ [(''dependencies'',
         \<lparr>default_value = PList [], configurable = False, attribute_type = ''list'', required = False,
          serialize = True, description = [],
          attr_get = (\<lambda>self. PList (map PStr (dependencies self)))\<rparr>),
        (''temp_dir'',
         \<lparr>default_value = PNone, configurable = True, attribute_type = ''str'', required = False,
          serialize = True, description = [],
          attr_get = (\<lambda>self. str_val (temp_dir self))\<rparr>)]"

section \<open>Observing the calls of \<open>__call__\<close>\<close>

text \<open>
  To observe the calls that \<open>__call__\<close> makes, \<open>setup\<close> and \<open>run\<close> are wrapped so that
  each call is appended to a trace kept beside the state: \<open>SetupCalled\<close>, or
  \<open>RunCalled frame outcome\<close> with what \<open>run(frame)\<close> returned or raised.
\<close>

datatype event = SetupCalled | RunCalled int "exn + int"

definition traced_setup :: "('s \<Rightarrow> (exn + unit) \<times> 's) \<Rightarrow> 's \<times> event list
    \<Rightarrow> (exn + unit) \<times> ('s \<times> event list)" where
  "traced_setup setup st = (case setup (fst st) of (r, s') \<Rightarrow> (r, (s', snd st @ [SetupCalled])))"

definition traced_run :: "(int \<Rightarrow> 's \<Rightarrow> (exn + int) \<times> 's) \<Rightarrow> int \<Rightarrow> 's \<times> event list
    \<Rightarrow> (exn + int) \<times> ('s \<times> event list)" where
  "traced_run run frame st =
     (case run frame (fst st) of (r, s') \<Rightarrow> (r, (s', snd st @ [RunCalled frame r])))"

text \<open>The trace of a list of \<open>run\<close> calls, each a frame with its outcome.\<close>

definition run_events :: "(int \<times> (exn + int)) list \<Rightarrow> event list" where
  "run_events calls = map (\<lambda>(frame, r). RunCalled frame r) calls"

text \<open>The message logged when some frames returned non-zero.\<close>

definition failed_message :: "string \<Rightarrow> int list \<Rightarrow> string" where
  "failed_message task_name frames =
     ''Run method for task '' @ quoted task_name @ '' Failed for frames: ''
     @ py_repr (PList (map PInt frames)) @ ''.''"

text \<open>
  A worked example: a \<open>setup\<close> that does nothing, and a \<open>run\<close> that returns 1 for the
  frames 12 and 19 and 0 for every other frame.
\<close>

definition example_setup :: "task \<Rightarrow> (exn + unit) \<times> task" where
  "example_setup st = (Inr (), st)"

definition example_run :: "int \<Rightarrow> task \<Rightarrow> (exn + int) \<times> task" where
  "example_run frame st = (Inr (if frame = 12 \<or> frame = 19 then 1 else 0), st)"

text \<open>
  Two more: a \<open>run\<close> that is interrupted from the keyboard at frame 12, and one that
  raises an ordinary exception at frame 12. Both return 0 for the other frames.
\<close>

definition interrupted_run :: "int \<Rightarrow> task \<Rightarrow> (exn + int) \<times> task" where
  "interrupted_run frame st = (if frame = 12 then Inl (KeyboardInterrupt []) else Inr 0, st)"

definition raising_run :: "int \<Rightarrow> task \<Rightarrow> (exn + int) \<times> task" where
  "raising_run frame st = (if frame = 12 then Inl (OtherException ''no such file'') else Inr 0, st)"

section \<open>Validation\<close>

text \<open>
  What \<open>validate\<close> does on integer values once the base-class check has passed: the
  message of either frame check cannot be built.
\<close>

lemma format_range_message:
  "py_format ''Invalid Frame Range: {start_frame} - {end_frame}'' [a, b] [] = Inl (KeyError ''start_frame'')"
  by (simp add: py_format_def get_value_def emit_def is_digit_def)

lemma format_negative_message:
  "py_format ''Invalid Frame Range (Negative frame numbers not allowed): {start_frame} - {end_frame}'' [a, b] []
     = Inl (KeyError ''start_frame'')"
  by (simp add: py_format_def get_value_def emit_def is_digit_def)

lemma validate_ints:
  assumes "Task_validate task_attributes self = Inr ()"
    and "chunk_size self = Some c" "start_frame self = Some s" "end_frame self = Some e"
  shows "validate task_attributes self =
           (if c < 0 then Inl (TaskValidationException ''Chunk size must be a positive number'')
            else if e < s \<or> e < 0 \<or> s < 0 then Inl (KeyError ''start_frame'')
            else Inr ())"
  using assms
  by (simp add: validate_def lt_int_def format_range_message format_negative_message)

text \<open>
  C3. \<open>validate()\<close> is to raise \<open>TaskValidationException\<close> for an inverted frame range,
  for a negative frame bound and for a negative chunk size. The code does so for the
  chunk size only. For the two frame checks the message is built by
  \<open>"... {start_frame} - {end_frame}".format(self.end_frame, self.start_frame)\<close>: the
  template names its fields and the values are passed by position, so \<open>format\<close> raises
  \<open>KeyError('start_frame')\<close> before the validation exception is constructed. Evaluated
  on Task1 with the range 5 to 3, with the range -5 to 3 and with the chunk size -1.
\<close>

theorem validate_frame_checks_raise_KeyError:
  "\<forall>r s.
     validate (SequenceTask_attributes r s) (Task1\<lparr>start_frame := Some 5, end_frame := Some 3\<rparr>)
       = Inl (KeyError ''start_frame'')
   \<and> validate (SequenceTask_attributes r s) (Task1\<lparr>start_frame := Some (- 5), end_frame := Some 3\<rparr>)
       = Inl (KeyError ''start_frame'')
   \<and> validate (SequenceTask_attributes r s) (Task1\<lparr>chunk_size := Some (- 1)\<rparr>)
       = Inl (TaskValidationException ''Chunk size must be a positive number'')"
  by (simp add: validate_def SequenceTask_attributes_def Task1_def int_val_def lt_int_def
        py_format_def get_value_def emit_def is_digit_def)

section \<open>Command-line export\<close>

text \<open>
  C2. Without the deadline flag \<open>export_to_command_line\<close> is to chunk first and export
  one command per chunk: for Task1 (frames 10 to 25, chunk size 8) a command for
  frames 10 to 17 and one for 18 to 25. The code does not chunk: it returns the single
  pair \<open>(self, command)\<close>, whose command carries the whole range 10 to 25.
\<close>

theorem export_to_command_line_does_not_chunk:
  "export_to_command_line (SequenceTask_attributes False True) None False Task1
     = (Inr (Task1, ''test  --task_name TestSequence  --start_frame 10 --end_frame 25 --chunk_size 8''),
        Task1)"
  by code_simp

lemma format_arg:
  "py_format ''{arg_str} --{attribute_name} {value}'' []
     [(''arg_str'', PStr a), (''attribute_name'', PStr n), (''value'', PStr v)]
   = Inr (a @ '' --'' @ n @ '' '' @ v)"
  by (simp add: py_format_def get_value_def emit_def is_digit_def py_str_def)

lemma format_command:
  "py_format ''{executable} {executable_args} --task_name {task_type} {task_args}'' []
     [(''executable'', x), (''executable_args'', PStr a), (''task_type'', PStr t), (''task_args'', PStr g)]
   = Inr (py_str x @ '' '' @ a @ '' --task_name '' @ t @ '' '' @ g)"
  by (simp add: py_format_def get_value_def emit_def is_digit_def py_str_def)

lemma export_args_eq:
  "export_args deadline attrs self acc =
     Inr (acc @ concat (map (\<lambda>(n, v). '' --'' @ n @ '' '' @ quoted_value v)
                            (exported_attributes deadline attrs self)))"
proof (induction attrs arbitrary: acc)
  case Nil
  show ?case by (simp add: exported_attributes_def)
next
  case (Cons p attrs)
  obtain n a where p: "p = (n, a)" by (cases p)
  show ?case
    unfolding p
    by (simp add: Cons.IH format_arg Let_def exported_attributes_def quoted_value_def)
qed

lemma command_line_eq:
  "export_to_command_line attrs tmp deadline self =
     (let self' = (if falsy (temp_dir self) then self\<lparr>temp_dir := tmp\<rparr> else self)
      in (Inr (self', command_head self'
                      @ concat (map (\<lambda>(n, v). '' --'' @ n @ '' '' @ quoted_value v)
                                    (exported_attributes deadline attrs self'))),
          self'))"
  by (simp add: export_to_command_line_def export_args_eq format_command Let_def command_head_def
        py_str_def str_val_def falsy_def split: option.splits)

lemma quoted_tokens:
  "quoted_value (PStr ''<STARTFRAME>'') = quoted ''<STARTFRAME>''"
  "quoted_value (PStr ''<ENDFRAME>'') = quoted ''<ENDFRAME>''"
  by (simp_all add: quoted_value_def is_container_def repr_str_def escape_char_def printable_def
        quoted_def Let_def)


lemma nat_digits_last: "nat_digits n \<noteq> [] \<and> last (nat_digits n) = digit_char (n mod 10)"
  by (subst (1 2) nat_digits.simps) simp

lemma digit_char_digit: "d < 10 \<Longrightarrow> is_digit (digit_char d)"
  unfolding is_digit_def digit_char_def by (rule nth_mem) simp

lemma str_int_last: "str_int i \<noteq> [] \<and> is_digit (last (str_int i))"
  by (simp add: str_int_def nat_digits_last digit_char_digit)

lemma repr_str_last: "repr_str s \<noteq> [] \<and> last (repr_str s) \<in> {CHR 0x27, CHR 0x22}"
  by (simp add: repr_str_def Let_def)

lemma quoted_value_last:
  assumes "v \<noteq> PNone"
  shows "quoted_value v \<noteq> [] \<and> last (quoted_value v) \<noteq> CHR ''>''"
proof (cases v)
  case PNone
  with assms show ?thesis by simp
next
  case (PBool b)
  then show ?thesis by (simp add: quoted_value_def is_container_def)
next
  case (PInt i)
  have "is_digit (last (str_int i))" "str_int i \<noteq> []" using str_int_last by simp_all
  moreover have "\<not> is_digit (CHR ''>'')" by (simp add: is_digit_def)
  ultimately show ?thesis using PInt by (auto simp add: quoted_value_def is_container_def)
next
  case (PStr s)
  then show ?thesis using repr_str_last [of s] by (auto simp add: quoted_value_def is_container_def)
next
  case (PList xs)
  then show ?thesis using repr_str_last [of "py_repr v"] by (auto simp add: quoted_value_def is_container_def)
next
  case (PSet xs)
  then show ?thesis using repr_str_last [of "py_repr v"] by (auto simp add: quoted_value_def is_container_def)
next
  case (PDict kvs)
  then show ?thesis using repr_str_last [of "py_repr v"] by (auto simp add: quoted_value_def is_container_def)
qed

lemma exported_attributes_not_None:
  "(n, v) \<in> set (exported_attributes deadline attrs self) \<Longrightarrow> v \<noteq> PNone"
  by (auto simp add: exported_attributes_def split: if_splits)

lemma last_concat:
  "ps \<noteq> [] \<Longrightarrow> last ps \<noteq> [] \<Longrightarrow> last (concat ps) = last (last ps)"
  by (induction ps) (auto simp add: last_append)

lemma command_last:
  "last (command_head self @ concat (map (\<lambda>(n, v). '' --'' @ n @ '' '' @ quoted_value v)
                                          (exported_attributes deadline attrs self))) \<noteq> CHR ''>''"
proof (cases "exported_attributes deadline attrs self = []")
  case True
  then show ?thesis by (simp add: command_head_def)
next
  case False
  define ps where "ps = map (\<lambda>(n, v). '' --'' @ n @ '' '' @ quoted_value v)
                            (exported_attributes deadline attrs self)"
  obtain n v where nv: "last (exported_attributes deadline attrs self) = (n, v)"
    by (cases "last (exported_attributes deadline attrs self)")
  then have "(n, v) \<in> set (exported_attributes deadline attrs self)"
    using False last_in_set by metis
  then have v: "quoted_value v \<noteq> [] \<and> last (quoted_value v) \<noteq> CHR ''>''"
    using exported_attributes_not_None quoted_value_last by blast
  have ne: "ps \<noteq> []" using False by (simp add: ps_def)
  have lp: "last ps = '' --'' @ n @ '' '' @ quoted_value v"
    using False nv by (simp add: ps_def last_map)
  then have lne: "last ps \<noteq> []" by simp
  have "last ps \<in> set ps" using ne by simp
  with lne have cne: "concat ps \<noteq> []" by auto
  have "last (concat ps) = last (quoted_value v)"
    using last_concat [OF ne lne] lp v by (simp add: last_append)
  then have "last (command_head self @ concat ps) = last (quoted_value v)"
    using cne by (simp only: last_append if_False)
  with v have "last (command_head self @ concat ps) \<noteq> CHR ''>''" by simp
  then show ?thesis unfolding ps_def .
qed

lemma suffix_last: "suffix xs ys \<Longrightarrow> xs \<noteq> [] \<Longrightarrow> last ys = last xs"
  by (auto simp add: suffix_def)

text \<open>
  C4, as amended. In placeholder mode \<open>export_to_command_line\<close> returns exactly one
  command, for every instance and so for every chunk size. A serialised non-null
  \<open>start_frame\<close> is exported as the pair \<open>--start_frame '<STARTFRAME>'\<close> and \<open>end_frame\<close> as
  \<open>--end_frame '<ENDFRAME>'\<close>: the tokens replace the concrete values and are quoted by
  \<open>repr\<close> like any other string value. The command never ends with the text
  \<open><STARTFRAME> <ENDFRAME>\<close>.
\<close>

theorem export_to_command_line_placeholders:
  "\<exists>self' cmd.
      export_to_command_line attrs tmp True self = (Inr (self', cmd), self')
    \<and> self' = (if falsy (temp_dir self) then self\<lparr>temp_dir := tmp\<rparr> else self)
    \<and> cmd = command_head self'
            @ concat (map (\<lambda>(n, a). '' --'' @ n @ '' ''
                              @ (if n = ''start_frame'' then quoted ''<STARTFRAME>''
                                 else if n = ''end_frame'' then quoted ''<ENDFRAME>''
                                 else quoted_value (attr_get a self')))
                          (filter (\<lambda>(n, a). serialize a \<and> attr_get a self' \<noteq> PNone) attrs))
    \<and> \<not> suffix ''<STARTFRAME> <ENDFRAME>'' cmd"
proof -
  define self' where "self' = (if falsy (temp_dir self) then self\<lparr>temp_dir := tmp\<rparr> else self)"
  define cmd where "cmd = command_head self'
       @ concat (map (\<lambda>(n, v). '' --'' @ n @ '' '' @ quoted_value v) (exported_attributes True attrs self'))"
  have 1: "export_to_command_line attrs tmp True self = (Inr (self', cmd), self')"
    by (simp add: command_line_eq Let_def self'_def cmd_def)
  have 2: "cmd = command_head self'
            @ concat (map (\<lambda>(n, a). '' --'' @ n @ '' ''
                              @ (if n = ''start_frame'' then quoted ''<STARTFRAME>''
                                 else if n = ''end_frame'' then quoted ''<ENDFRAME>''
                                 else quoted_value (attr_get a self')))
                          (filter (\<lambda>(n, a). serialize a \<and> attr_get a self' \<noteq> PNone) attrs))"
    unfolding cmd_def exported_attributes_def map_map
    by (rule arg_cong [where f = "\<lambda>x. command_head self' @ concat x"], rule map_cong)
       (auto simp add: quoted_tokens)
  have 3: "\<not> suffix ''<STARTFRAME> <ENDFRAME>'' cmd"
  proof
    assume "suffix ''<STARTFRAME> <ENDFRAME>'' cmd"
    then have "last cmd = CHR ''>''" using suffix_last by fastforce
    then show False using command_last [of self' True attrs] by (simp add: cmd_def)
  qed
  from 1 2 3 show ?thesis unfolding self'_def by blast
qed

text \<open>On Task1 with the attributes of \<open>SequenceTask\<close>, in placeholder mode.\<close>

theorem export_to_command_line_placeholders_witness:
  "export_to_command_line (SequenceTask_attributes False True) None True Task1
     = (Inr (Task1, ''test  --task_name TestSequence  --start_frame '' @ quoted ''<STARTFRAME>''
                    @ '' --end_frame '' @ quoted ''<ENDFRAME>'' @ '' --chunk_size 8''), Task1)"
  using export_to_command_line_placeholders [of "SequenceTask_attributes False True" None Task1]
  by (simp add: Task1_def SequenceTask_attributes_def falsy_def command_head_def int_val_def
        quoted_value_def is_container_def str_int_def nat_digits.simps digit_char_def)

text \<open>
  C4 as stated fails: the command exported for Task1 (frames 10 to 25, chunk size 8)
  in placeholder mode does not end with \<open><STARTFRAME> <ENDFRAME>\<close>.
\<close>

theorem export_to_command_line_placeholders_counterexample:
  "\<not> suffix ''<STARTFRAME> <ENDFRAME>''
       (snd (projr (fst (export_to_command_line (SequenceTask_attributes False True) None True Task1))))"
  by (simp add: command_line_eq Task1_def SequenceTask_attributes_def falsy_def command_head_def
        int_val_def exported_attributes_def quoted_value_def is_container_def str_int_def
        nat_digits.simps digit_char_def quoted_tokens [unfolded quoted_value_def is_container_def, simplified]
        quoted_def suffix_to_prefix Let_def)


lemma concat_spaced:
  "concat (map (\<lambda>p. '' '' @ f p) xs) = (if xs = [] then [] else '' '' @ join '' '' (map f xs))"
proof (induction xs)
  case Nil
  show ?case by simp
next
  case (Cons x xs)
  then show ?case by (cases xs) simp_all
qed

text \<open>
  C7, as amended. The exported command is the head
  \<open>"{executable} {executableArgs} --task_name {taskTypeName} "\<close> followed by one
  \<open>--{attributeName} {quotedValue}\<close> pair, each preceded by a space, for exactly the
  declared attributes whose \<open>serialize\<close> flag is set and whose resolved value is
  non-null, in declaration order. So the pairs are joined by single spaces and, when
  there is at least one, the first pair follows the head's space after one more space.
  A list, set or dict value is rendered by \<open>repr\<close> and that text is quoted as a whole.
\<close>

theorem export_to_command_line_command:
  "\<exists>self' cmd.
      export_to_command_line attrs tmp deadline self = (Inr (self', cmd), self')
    \<and> self' = (if falsy (temp_dir self) then self\<lparr>temp_dir := tmp\<rparr> else self)
    \<and> map fst (exported_attributes deadline attrs self')
        = map fst (filter (\<lambda>(n, a). serialize a \<and> attr_get a self' \<noteq> PNone) attrs)
    \<and> cmd = command_head self'
            @ concat (map (\<lambda>(n, v). '' '' @ ''--'' @ n @ '' '' @ quoted_value v)
                          (exported_attributes deadline attrs self'))
    \<and> cmd = command_head self'
            @ (if exported_attributes deadline attrs self' = [] then []
               else '' '' @ join '' '' (map (\<lambda>(n, v). ''--'' @ n @ '' '' @ quoted_value v)
                                            (exported_attributes deadline attrs self')))
    \<and> quoted_value (PList xs) = repr_str (py_repr (PList xs))
    \<and> quoted_value (PSet xs) = repr_str (py_repr (PSet xs))
    \<and> quoted_value (PDict kvs) = repr_str (py_repr (PDict kvs))"
proof -
  define self' where "self' = (if falsy (temp_dir self) then self\<lparr>temp_dir := tmp\<rparr> else self)"
  define ps where "ps = exported_attributes deadline attrs self'"
  define cmd where "cmd = command_head self'
       @ concat (map (\<lambda>(n, v). '' --'' @ n @ '' '' @ quoted_value v) ps)"
  have 1: "export_to_command_line attrs tmp deadline self = (Inr (self', cmd), self')"
    by (simp add: command_line_eq Let_def self'_def cmd_def ps_def)
  have 2: "map fst ps = map fst (filter (\<lambda>(n, a). serialize a \<and> attr_get a self' \<noteq> PNone) attrs)"
    by (simp add: ps_def exported_attributes_def comp_def case_prod_beta)
  have e: "(\<lambda>(n, v). '' --'' @ n @ '' '' @ quoted_value v)
         = (\<lambda>p. '' '' @ (case p of (n, v) \<Rightarrow> ''--'' @ n @ '' '' @ quoted_value v))"
    by (simp add: fun_eq_iff)
  have 3: "cmd = command_head self'
            @ concat (map (\<lambda>(n, v). '' '' @ ''--'' @ n @ '' '' @ quoted_value v) ps)"
    by (simp add: cmd_def)
  have 4: "cmd = command_head self'
            @ (if ps = [] then []
               else '' '' @ join '' '' (map (\<lambda>(n, v). ''--'' @ n @ '' '' @ quoted_value v) ps))"
    unfolding cmd_def e concat_spaced ..
  have 5: "quoted_value (PList xs) = repr_str (py_repr (PList xs))"
    "quoted_value (PSet xs) = repr_str (py_repr (PSet xs))"
    "quoted_value (PDict kvs) = repr_str (py_repr (PDict kvs))"
    by (simp_all add: quoted_value_def is_container_def)
  from 1 2 3 4 5 show ?thesis unfolding self'_def ps_def by blast
qed

lemma Task1_command_line:
  "export_to_command_line (SequenceTask_attributes False True) None False Task1
     = (Inr (Task1, ''test  --task_name TestSequence  --start_frame 10 --end_frame 25 --chunk_size 8''),
        Task1)"
  by code_simp

lemma Task1_spec_command_line:
  "spec_command_line False (SequenceTask_attributes False True) Task1
     = ''test  --task_name TestSequence --start_frame 10 --end_frame 25 --chunk_size 8''"
  by code_simp

text \<open>
  C7 as stated fails: for Task1 the command of the specification has one space between
  the task type and the first pair, the exported command has two.
\<close>

theorem export_to_command_line_command_counterexample:
  "spec_command_line False (SequenceTask_attributes False True) Task1
     = ''test  --task_name TestSequence --start_frame 10 --end_frame 25 --chunk_size 8''
   \<and> fst (export_to_command_line (SequenceTask_attributes False True) None False Task1)
     \<noteq> Inr (Task1, spec_command_line False (SequenceTask_attributes False True) Task1)"
  unfolding Task1_command_line Task1_spec_command_line by simp

text \<open>A worked example with a list value: the dependency list is quoted as a whole.\<close>

theorem export_to_command_line_command_witness:
  "export_to_command_line example_attributes None False (Task1\<lparr>dependencies := [''Task 0'']\<rparr>)
     = (Inr (Task1\<lparr>dependencies := [''Task 0'']\<rparr>,
             ''test  --task_name TestSequence  --start_frame 10 --end_frame 25 --chunk_size 8 --dependencies ''
             @ [CHR 0x22] @ ''['' @ quoted ''Task 0'' @ '']'' @ [CHR 0x22]),
        Task1\<lparr>dependencies := [''Task 0'']\<rparr>)"
  using export_to_command_line_command [of example_attributes None False "Task1\<lparr>dependencies := [''Task 0'']\<rparr>"]
  by (simp add: Task1_def example_attributes_def SequenceTask_attributes_def falsy_def command_head_def
        int_val_def str_val_def exported_attributes_def quoted_value_def is_container_def str_int_def
        nat_digits.simps digit_char_def repr_str_def escape_char_def printable_def quoted_def Let_def)

text \<open>
  C8, as amended. \<open>export_to_command_line\<close> leaves every field of the instance but
  \<open>temp_dir\<close> unchanged. \<open>temp_dir\<close> is set to the argument when it was \<open>None\<close> or empty
  before the call, and is unchanged otherwise.
\<close>

theorem export_to_command_line_instance:
  "snd (export_to_command_line attrs tmp deadline self)
     = self\<lparr>temp_dir := (if falsy (temp_dir self) then tmp else temp_dir self)\<rparr>"
  by (simp add: command_line_eq Let_def)

text \<open>
  C8 as stated fails: Task1 has no \<open>temp_dir\<close>, and the call with the argument
  \<open>./test_temp\<close> changes the field.
\<close>

theorem export_to_command_line_instance_counterexample:
  "temp_dir (snd (export_to_command_line (SequenceTask_attributes False True) (Some ''./test_temp'') False Task1))
     \<noteq> temp_dir Task1"
  by (simp add: command_line_eq Let_def Task1_def falsy_def)

text \<open>The two cases on Task1: without a \<open>temp_dir\<close> of its own, and with one.\<close>

theorem export_to_command_line_instance_witness:
  "snd (export_to_command_line (SequenceTask_attributes False True) (Some ''./test_temp'') False Task1)
     = Task1\<lparr>temp_dir := Some ''./test_temp''\<rparr>
   \<and> snd (export_to_command_line (SequenceTask_attributes False True) (Some ''./test_temp'') False
            (Task1\<lparr>temp_dir := Some ''/tmp/wolfkrow''\<rparr>))
     = Task1\<lparr>temp_dir := Some ''/tmp/wolfkrow''\<rparr>"
  using export_to_command_line_instance [of "SequenceTask_attributes False True" "Some ''./test_temp''" False Task1]
    export_to_command_line_instance [of "SequenceTask_attributes False True" "Some ''./test_temp''" False
      "Task1\<lparr>temp_dir := Some ''/tmp/wolfkrow''\<rparr>"]
  by (simp add: Task1_def falsy_def)

section \<open>Script export\<close>

subsection \<open>The loop\<close>

lemma format_frame_str: "py_format ''{}-{}'' [a, b] [] = Inr (py_str a @ ''-'' @ py_str b)"
  by (simp add: py_format_def get_value_def emit_def)

lemma format_chunk_name: "py_format ''{}_{}'' [a, b] [] = Inr (py_str a @ ''_'' @ py_str b)"
  by (simp add: py_format_def get_value_def emit_def)

lemma chunk_body_ints:
  assumes "end_frame self = Some (s - 1)" "chunk_size self = Some c"
  shows "chunk_body (Some e) nm self = (Inr (), chunk_of self nm (s, min (s + c - 1) e))"
  using assms
  by (simp add: chunk_body_def add_int_def sub_int_def min_int_def lt_int_def format_frame_str
        format_chunk_name int_val_def py_str_def chunk_of_def min_def)

lemma chunk_of_chunk_of [simp]: "chunk_of (chunk_of self nm r) nm r' = chunk_of self nm r'"
  by (simp add: chunk_of_def)

lemma chunk_of_fields [simp]:
  "end_frame (chunk_of self nm r) = Some (snd r)"
  "start_frame (chunk_of self nm r) = Some (fst r)"
  "chunk_size (chunk_of self nm r) = chunk_size self"
  by (simp_all add: chunk_of_def)

lemma chunk_ranges_Nil: "\<not> (0 < c \<and> s \<le> e) \<Longrightarrow> chunk_ranges c e s = []"
  by (subst chunk_ranges.simps) simp

lemma chunk_ranges_Cons:
  "0 < c \<Longrightarrow> s \<le> e \<Longrightarrow>
   chunk_ranges c e s = (s, min (s + c - 1) e) # chunk_ranges c e (min (s + c - 1) e + 1)"
  by (subst chunk_ranges.simps) simp

lemma chunk_loop_step:
  assumes "0 < c" "chunk_size self = Some c" "end_frame self = Some (s - 1)" "s \<le> e"
  shows "chunk_loop Task_export job tmp (Some e) nm tasks self =
           (case fst (Task_export (chunk_of self nm (s, min (s + c - 1) e)) job tmp) of
              Inl x \<Rightarrow> Some (Inl x, chunk_of self nm (s, min (s + c - 1) e))
            | Inr x \<Rightarrow> chunk_loop Task_export job tmp (Some e) nm (tasks @ [x])
                         (chunk_of self nm (s, min (s + c - 1) e)))"
  using assms
  by (subst chunk_loop.simps) (simp add: lt_int_def Task_copy_def chunk_body_ints)

lemma chunk_loop_done:
  assumes "end_frame self = Some (s - 1)" "\<not> s \<le> e"
  shows "chunk_loop Task_export job tmp (Some e) nm tasks self = Some (Inr tasks, self)"
  using assms by (subst chunk_loop.simps) (simp add: lt_int_def)

lemma chunk_loop_fails:
  assumes "0 < c" "chunk_size self = Some c" "end_frame self = Some (s - 1)"
    and "chunk_ranges c e s = pre @ r # post"
    and "\<forall>p \<in> set pre. \<exists>x. fst (Task_export (chunk_of self nm p) job tmp) = Inr x"
    and "fst (Task_export (chunk_of self nm r) job tmp) = Inl x"
  shows "chunk_loop Task_export job tmp (Some e) nm tasks self = Some (Inl x, chunk_of self nm r)"
  using assms
proof (induction pre arbitrary: s self tasks)
  case Nil
  have se: "s \<le> e" using Nil.prems(4) chunk_ranges_Nil [of c s e] by auto
  have "r = (s, min (s + c - 1) e)"
    using Nil.prems(4) chunk_ranges_Cons [OF Nil.prems(1) se] by simp
  then show ?case
    using Nil.prems by (simp add: chunk_loop_step [OF Nil.prems(1-3) se])
next
  case (Cons p pre)
  have se: "s \<le> e" using Cons.prems(4) chunk_ranges_Nil [of c s e] by auto
  define m where "m = min (s + c - 1) e"
  have p: "p = (s, m)" and rest: "chunk_ranges c e (m + 1) = pre @ r # post"
    using Cons.prems(4) chunk_ranges_Cons [OF Cons.prems(1) se] by (simp_all add: m_def)
  obtain y where y: "fst (Task_export (chunk_of self nm (s, m)) job tmp) = Inr y"
    using Cons.prems(5) p by auto
  have "chunk_loop Task_export job tmp (Some e) nm tasks self =
        chunk_loop Task_export job tmp (Some e) nm (tasks @ [y]) (chunk_of self nm (s, m))"
    using y by (simp add: chunk_loop_step [OF Cons.prems(1-3) se] m_def)
  also have "\<dots> = Some (Inl x, chunk_of (chunk_of self nm (s, m)) nm r)"
  proof (rule Cons.IH [OF Cons.prems(1)])
    show "chunk_size (chunk_of self nm (s, m)) = Some c" using Cons.prems(2) by simp
    show "end_frame (chunk_of self nm (s, m)) = Some (m + 1 - 1)" by simp
    show "chunk_ranges c e (m + 1) = pre @ r # post" by fact
    show "\<forall>p\<in>set pre. \<exists>x. fst (Task_export (chunk_of (chunk_of self nm (s, m)) nm p) job tmp) = Inr x"
      using Cons.prems(5) by simp
    show "fst (Task_export (chunk_of (chunk_of self nm (s, m)) nm r) job tmp) = Inl x"
      using Cons.prems(6) by simp
  qed
  finally show ?case by simp
qed

lemma chunk_loop_all_exported:
  assumes "0 < c" "chunk_size self = Some c" "end_frame self = Some (s - 1)"
    and "\<forall>r \<in> set (chunk_ranges c e s). \<exists>x. fst (Task_export (chunk_of self nm r) job tmp) = Inr x"
  shows "chunk_loop Task_export job tmp (Some e) nm tasks self =
           Some (Inr (tasks @ map (\<lambda>r. projr (fst (Task_export (chunk_of self nm r) job tmp)))
                              (chunk_ranges c e s)),
                 if s \<le> e then chunk_of self nm (last (chunk_ranges c e s)) else self)"
  using assms
proof (induction c e s arbitrary: self tasks rule: chunk_ranges.induct)
  case (1 c e s)
  show ?case
  proof (cases "s \<le> e")
    case False
    then show ?thesis
      using "1.prems"(3) by (simp add: chunk_loop_done chunk_ranges_Nil)
  next
    case True
    define m where "m = min (s + c - 1) e"
    define self' where "self' = chunk_of self nm (s, m)"
    have rs: "chunk_ranges c e s = (s, m) # chunk_ranges c e (m + 1)"
      using chunk_ranges_Cons [OF "1.prems"(1) True] by (simp add: m_def)
    from "1.prems"(4) rs obtain x where x: "fst (Task_export self' job tmp) = Inr x"
      unfolding self'_def by auto
    have step: "chunk_loop Task_export job tmp (Some e) nm tasks self =
                chunk_loop Task_export job tmp (Some e) nm (tasks @ [x]) self'"
      using x by (simp add: chunk_loop_step [OF "1.prems"(1-3) True] m_def self'_def)
    have IH: "chunk_loop Task_export job tmp (Some e) nm (tasks @ [x]) self' =
           Some (Inr ((tasks @ [x]) @ map (\<lambda>r. projr (fst (Task_export (chunk_of self' nm r) job tmp)))
                              (chunk_ranges c e (m + 1))),
                 if m + 1 \<le> e then chunk_of self' nm (last (chunk_ranges c e (m + 1))) else self')"
      unfolding m_def
    proof (rule "1.IH")
      show "0 < c \<and> s \<le> e" using True "1.prems" by simp
      show "0 < c" by fact
      show "chunk_size self' = Some c" using "1.prems" by (simp add: self'_def)
      show "end_frame self' = Some (min (s + c - 1) e + 1 - 1)" by (simp add: self'_def m_def)
      show "\<forall>r\<in>set (chunk_ranges c e (min (s + c - 1) e + 1)).
       \<exists>x. fst (Task_export (chunk_of self' nm r) job tmp) = Inr x"
        using "1.prems"(4) rs by (simp add: self'_def m_def)
    qed
    have ne: "m + 1 \<le> e \<Longrightarrow> chunk_ranges c e (m + 1) \<noteq> []"
      using "1.prems"(1) by (subst chunk_ranges.simps) simp
    have emp: "\<not> m + 1 \<le> e \<Longrightarrow> chunk_ranges c e (m + 1) = []"
      by (simp add: chunk_ranges_Nil)
    show ?thesis
      unfolding step IH using True x ne emp
      by (auto simp add: rs self'_def)
  qed
qed

subsection \<open>The sub-ranges\<close>

lemma length_chunk_ranges:
  "0 < c \<Longrightarrow> s \<le> e + 1 \<Longrightarrow> int (length (chunk_ranges c e s)) = (e - s + c) div c"
proof (induction c e s rule: chunk_ranges.induct)
  case (1 c e s)
  show ?case
  proof (cases "s \<le> e")
    case False
    with "1.prems" have "s = e + 1" by simp
    with "1.prems" show ?thesis by (simp add: chunk_ranges_Nil)
  next
    case True
    show ?thesis
    proof (cases "s + c - 1 \<le> e")
      case le: True
      have "int (length (chunk_ranges c e (s + c))) = (e - (s + c) + c) div c"
        using "1.IH" "1.prems" True le by (simp add: min_def)
      moreover have "(e - s + c) div c = (e - s) div c + 1"
        using "1.prems"(1) by simp
      ultimately show ?thesis
        using chunk_ranges_Cons [OF "1.prems"(1) True] le by (simp add: min_def)
    next
      case gt: False
      have "(e - s + c) div c = 1"
        using "1.prems"(1) True gt by (simp add: div_pos_pos_trivial)
      then show ?thesis
        using chunk_ranges_Cons [OF "1.prems"(1) True] gt by (simp add: min_def chunk_ranges_Nil)
    qed
  qed
qed

lemma ceiling_div:
  fixes a c :: int
  assumes "0 < c"
  shows "\<lceil>real_of_int a / real_of_int c\<rceil> = (a + c - 1) div c"
proof -
  have "\<lceil>real_of_int a / real_of_int c\<rceil> = - ((- a) div c)"
    by (simp add: ceiling_divide_eq_div)
  also have "\<dots> = (a + c - 1) div c"
  proof (cases "a mod c = 0")
    case True
    then obtain q where q: "a = c * q" by auto
    have "(c * q + c - 1) div c = (c - 1 + c * q) div c"
      by (simp add: algebra_simps)
    also have "\<dots> = q + (c - 1) div c"
      using assms by simp
    also have "(c - 1) div c = 0"
      using assms by (simp add: div_pos_pos_trivial)
    finally have "(c * q + c - 1) div c = q" by simp
    moreover have "- ((- (c * q)) div c) = q"
      using assms by (simp add: zdiv_zminus1_eq_if)
    ultimately show ?thesis using q by simp
  next
    case False
    have "(a + c - 1) div c = a div c + 1"
    proof -
      have "0 \<le> a mod c" "a mod c < c" using assms by simp_all
      with False have m: "0 < a mod c" "a mod c < c" by simp_all
      have "(a + c - 1) div c = ((a mod c - 1) + c * (a div c + 1)) div c"
        by (simp add: algebra_simps)
      also have "\<dots> = (a div c + 1) + (a mod c - 1) div c"
        using assms by simp
      also have "(a mod c - 1) div c = 0"
        using m by (simp add: div_pos_pos_trivial)
      finally show ?thesis by simp
    qed
    then show ?thesis using assms False by (simp add: zdiv_zminus1_eq_if)
  qed
  finally show ?thesis .
qed

lemma chunk_ranges_nonempty: "i < length (chunk_ranges c e s) \<Longrightarrow> 0 < c \<and> s \<le> e"
  by (rule ccontr) (simp add: chunk_ranges_Nil)

lemma nth_chunk_ranges:
  "0 < c \<Longrightarrow> i < length (chunk_ranges c e s) \<Longrightarrow>
   chunk_ranges c e s ! i = (s + int i * c, min (s + (int i + 1) * c - 1) e)"
proof (induction i arbitrary: s)
  case 0
  then have "s \<le> e" using chunk_ranges_nonempty by blast
  then show ?case using chunk_ranges_Cons [OF "0.prems"(1)] by simp
next
  case (Suc i)
  have se: "s \<le> e" using Suc.prems(2) chunk_ranges_nonempty by blast
  define m where "m = min (s + c - 1) e"
  have rs: "chunk_ranges c e s = (s, m) # chunk_ranges c e (m + 1)"
    using chunk_ranges_Cons [OF Suc.prems(1) se] by (simp add: m_def)
  have i: "i < length (chunk_ranges c e (m + 1))" using Suc.prems(2) rs by simp
  then have "m + 1 \<le> e" using chunk_ranges_nonempty by blast
  then have m: "m + 1 = s + c" by (simp add: m_def min_def split: if_splits)
  have "chunk_ranges c e s ! Suc i = chunk_ranges c e (s + c) ! i" using rs m by simp
  also have "\<dots> = (s + c + int i * c, min (s + c + (int i + 1) * c - 1) e)"
    using Suc.IH [OF Suc.prems(1), of "s + c"] i m by simp
  finally show ?case by (simp add: algebra_simps)
qed

lemma length_chunk_ranges_gt:
  "0 < c \<Longrightarrow> s + int k * c \<le> e \<Longrightarrow> k < length (chunk_ranges c e s)"
proof (induction k arbitrary: s)
  case 0
  then show ?case using chunk_ranges_Cons [of c s e] by simp
next
  case (Suc k)
  have "0 \<le> int k * c" using Suc.prems(1) by simp
  moreover have "int (Suc k) * c = int k * c + c" by (simp add: algebra_simps)
  ultimately have se: "s + c \<le> e" using Suc.prems(2) by linarith
  then have s: "s \<le> e" using Suc.prems(1) by simp
  have "min (s + c - 1) e + 1 = s + c" using se by (simp add: min_def)
  then have rs: "chunk_ranges c e s = (s, s + c - 1) # chunk_ranges c e (s + c)"
    using chunk_ranges_Cons [OF Suc.prems(1) s] se by (simp add: min_def)
  have "k < length (chunk_ranges c e (s + c))"
    using Suc.IH [OF Suc.prems(1), of "s + c"] Suc.prems(2) by (simp add: algebra_simps)
  then show ?case using rs by simp
qed


lemma chunk_ranges_bounds:
  "0 < c \<Longrightarrow> (a, b) \<in> set (chunk_ranges c e s) \<Longrightarrow> s \<le> a \<and> a \<le> b \<and> b \<le> e \<and> b - a + 1 \<le> c"
proof (induction c e s rule: chunk_ranges.induct)
  case (1 c e s)
  show ?case
  proof (cases "s \<le> e")
    case False
    with "1.prems" show ?thesis by (simp add: chunk_ranges_Nil)
  next
    case True
    from "1.prems"(2) chunk_ranges_Cons [OF "1.prems"(1) True]
    consider "(a, b) = (s, min (s + c - 1) e)" | "(a, b) \<in> set (chunk_ranges c e (min (s + c - 1) e + 1))"
      by auto
    then show ?thesis
    proof cases
      case 1
      then show ?thesis using True "1.prems"(1) by auto
    next
      case 2
      have "min (s + c - 1) e + 1 \<le> a \<and> a \<le> b \<and> b \<le> e \<and> b - a + 1 \<le> c"
        using "1.IH" "1.prems"(1) True 2 by simp
      then show ?thesis using "1.prems"(1) True by auto
    qed
  qed
qed

lemma chunk_ranges_union:
  "0 < c \<Longrightarrow> (\<Union>r \<in> set (chunk_ranges c e s). {fst r..snd r}) = {s..e}"
proof (induction c e s rule: chunk_ranges.induct)
  case (1 c e s)
  show ?case
  proof (cases "s \<le> e")
    case False
    then show ?thesis by (simp add: chunk_ranges_Nil)
  next
    case True
    define m where "m = min (s + c - 1) e"
    have m: "s \<le> m" "m \<le> e" using True "1.prems" by (simp_all add: m_def)
    have "(\<Union>r \<in> set (chunk_ranges c e (m + 1)). {fst r..snd r}) = {m + 1..e}"
      unfolding m_def using "1.IH" "1.prems" True by simp
    moreover have "{s..m} \<union> {m + 1..e} = {s..e}" using m by auto
    ultimately show ?thesis
      using chunk_ranges_Cons [OF "1.prems" True] by (simp add: m_def)
  qed
qed

lemma chunk_ranges_last:
  "0 < c \<Longrightarrow> s \<le> e \<Longrightarrow> snd (last (chunk_ranges c e s)) = e"
proof (induction c e s rule: chunk_ranges.induct)
  case (1 c e s)
  define m where "m = min (s + c - 1) e"
  have rs: "chunk_ranges c e s = (s, m) # chunk_ranges c e (m + 1)"
    using chunk_ranges_Cons [OF "1.prems"] by (simp add: m_def)
  show ?case
  proof (cases "m + 1 \<le> e")
    case True
    then have "chunk_ranges c e (m + 1) \<noteq> []"
      using chunk_ranges_Cons [OF "1.prems"(1) True] by simp
    moreover have "snd (last (chunk_ranges c e (m + 1))) = e"
      unfolding m_def using "1.IH" "1.prems" True by (simp add: m_def)
    ultimately show ?thesis using rs by simp
  next
    case False
    then have "m = e" using "1.prems" by (simp add: m_def min_def split: if_splits)
    then show ?thesis using rs False by (simp add: chunk_ranges_Nil)
  qed
qed

lemma chunk_ranges_contiguous:
  assumes "0 < c" "Suc i < length (chunk_ranges c e s)"
  shows "fst (chunk_ranges c e s ! Suc i) = snd (chunk_ranges c e s ! i) + 1"
proof -
  have "(chunk_ranges c e s ! Suc i) \<in> set (chunk_ranges c e s)"
    using assms(2) nth_mem by blast
  then have "(s + int (Suc i) * c, min (s + (int (Suc i) + 1) * c - 1) e) \<in> set (chunk_ranges c e s)"
    using nth_chunk_ranges [OF assms] by simp
  from chunk_ranges_bounds [OF assms(1) this] have "s + int (Suc i) * c \<le> e"
    by linarith
  then have "s + (int i + 1) * c - 1 \<le> e"
    by (simp add: algebra_simps)
  then have "min (s + (int i + 1) * c - 1) e = s + (int i + 1) * c - 1"
    by (simp only: min_def if_True)
  moreover have "i < length (chunk_ranges c e s)" using assms(2) by simp
  ultimately show ?thesis
    using nth_chunk_ranges [OF assms] nth_chunk_ranges [OF assms(1), of i e s] by simp
qed

lemma chunk_of_end_update [simp]:
  "chunk_of (self\<lparr>end_frame := v\<rparr>) nm r = chunk_of self nm r"
  by (simp add: chunk_of_def)

lemma chunk_of_restored:
  "start_frame self = a \<Longrightarrow> end_frame self = b \<Longrightarrow>
   (chunk_of self (name self) r)\<lparr>start_frame := a, end_frame := b, name := name self\<rparr> = self"
  by (cases self) (simp add: chunk_of_def)

lemma end_update_restored:
  "start_frame self = a \<Longrightarrow> end_frame self = b \<Longrightarrow>
   self\<lparr>end_frame := v, start_frame := a, end_frame := b, name := name self\<rparr> = self"
  by (cases self) simp

lemma export_to_python_script_chunked:
  assumes "chunk_size self = Some c" "0 < c" "start_frame self = Some s" "end_frame self = Some e"
  shows "export_to_python_script Task_export job tmp self =
          (case chunk_loop Task_export job tmp (Some e) (name self) [] (self\<lparr>end_frame := Some (s - 1)\<rparr>) of
             None \<Rightarrow> None
           | Some (Inl x, self') \<Rightarrow> Some (Inl x, self')
           | Some (Inr tasks, self') \<Rightarrow>
               Some (Inr (Chunks tasks), self'\<lparr>start_frame := Some s, end_frame := Some e, name := name self\<rparr>))"
  using assms by (simp add: export_to_python_script_def sub_int_def Let_def)


lemma chunk_loop_outcome:
  assumes "0 < c" "chunk_size self = Some c" "end_frame self = Some (s - 1)"
  shows "\<exists>res st. chunk_loop Task_export job tmp (Some e) nm tasks self = Some (res, st)
           \<and> (st = self \<or> (\<exists>a b. st = chunk_of self nm (a, b)))"
proof (cases "\<forall>r \<in> set (chunk_ranges c e s). \<exists>x. fst (Task_export (chunk_of self nm r) job tmp) = Inr x")
  case True
  show ?thesis
    unfolding chunk_loop_all_exported [where Task_export = Task_export and job = job and tmp = tmp
        and self = self and nm = nm and c = c and e = e and s = s and tasks = tasks,
        OF assms True] by (cases "last (chunk_ranges c e s)") auto
next
  case False
  then have "\<exists>r \<in> set (chunk_ranges c e s). \<not> (\<exists>x. fst (Task_export (chunk_of self nm r) job tmp) = Inr x)"
    by simp
  then obtain pre r post where split: "chunk_ranges c e s = pre @ r # post"
    and r: "\<not> (\<exists>x. fst (Task_export (chunk_of self nm r) job tmp) = Inr x)"
    and pre: "\<forall>p \<in> set pre. \<not> \<not> (\<exists>x. fst (Task_export (chunk_of self nm p) job tmp) = Inr x)"
    using split_list_first_prop [of "chunk_ranges c e s"
        "\<lambda>r. \<not> (\<exists>x. fst (Task_export (chunk_of self nm r) job tmp) = Inr x)"]
    by blast
  from r obtain x where x: "fst (Task_export (chunk_of self nm r) job tmp) = Inl x"
    by (cases "fst (Task_export (chunk_of self nm r) job tmp)") auto
  from pre have pre': "\<forall>p \<in> set pre. \<exists>x. fst (Task_export (chunk_of self nm p) job tmp) = Inr x"
    by simp
  show ?thesis
    unfolding chunk_loop_fails [where Task_export = Task_export and job = job and tmp = tmp
        and self = self and nm = nm and c = c and e = e and s = s and tasks = tasks
        and pre = pre and r = r and post = post and x = x,
        OF assms split pre' x] by (cases r) auto
qed

text \<open>
  C1. For a chunk size \<open>c > 0\<close> and frames \<open>0 \<le> s \<le> e\<close>, with an exporter that does not
  raise, \<open>export_to_python_script\<close> returns the exports of exactly
  \<open>ceil((e - s + 1) / c)\<close> chunks, in order. Chunk \<open>i\<close> is the instance narrowed to
  the frames \<open>s + i * c\<close> to \<open>min (s + (i + 1) * c - 1) e\<close> and named with the parent's
  name, an underscore and \<open>chunkStart-chunkEnd\<close>. Every chunk lies within the range
  and has at most \<open>c\<close> frames, the first chunk starts at \<open>s\<close>, the last ends at \<open>e\<close>,
  each chunk starts one frame after its predecessor ends (so the chunks are
  contiguous, disjoint and ascending), and their union is the whole range.
\<close>

theorem export_to_python_script_chunks:
  assumes "chunk_size self = Some c" "0 < c"
    and "start_frame self = Some s" "end_frame self = Some e" "0 \<le> s" "s \<le> e"
    and "\<forall>t. \<exists>x t'. Task_export t job tmp = (Inr x, t')"
  shows "\<exists>chunks.
      export_to_python_script Task_export job tmp self
        = Some (Inr (Chunks (map (\<lambda>t. projr (fst (Task_export t job tmp))) chunks)), self)
    \<and> int (length chunks) = \<lceil>real_of_int (e - s + 1) / real_of_int c\<rceil>
    \<and> (\<forall>i < length chunks.
          chunks ! i = self\<lparr>start_frame := Some (s + int i * c),
                             end_frame := Some (min (s + (int i + 1) * c - 1) e),
                             name := name self @ ''_'' @ str_int (s + int i * c) @ ''-''
                                     @ str_int (min (s + (int i + 1) * c - 1) e)\<rparr>)
    \<and> (\<forall>t \<in> set chunks. \<exists>a b. start_frame t = Some a \<and> end_frame t = Some b
          \<and> s \<le> a \<and> a \<le> b \<and> b \<le> e \<and> b - a + 1 \<le> c)
    \<and> start_frame (hd chunks) = Some s
    \<and> end_frame (last chunks) = Some e
    \<and> (\<forall>i. Suc i < length chunks \<longrightarrow>
          start_frame (chunks ! Suc i) = Some (the (end_frame (chunks ! i)) + 1))
    \<and> (\<Union>t \<in> set chunks. {the (start_frame t)..the (end_frame t)}) = {s..e}"
proof -
  define rs where "rs = chunk_ranges c e s"
  define chunks where "chunks = map (chunk_of self (name self)) rs"
  have ne: "rs \<noteq> []"
    unfolding rs_def using chunk_ranges_Cons [OF assms(2,6)] by simp
  have ok: "\<forall>r \<in> set (chunk_ranges c e s).
      \<exists>x. fst (Task_export (chunk_of (self\<lparr>end_frame := Some (s - 1)\<rparr>) (name self) r) job tmp) = Inr x"
    using assms(7) by (metis fst_conv)
  have loop: "chunk_loop Task_export job tmp (Some e) (name self) [] (self\<lparr>end_frame := Some (s - 1)\<rparr>)
      = Some (Inr (map (\<lambda>t. projr (fst (Task_export t job tmp))) chunks),
              chunk_of self (name self) (last rs))"
    using chunk_loop_all_exported [where Task_export = Task_export and job = job and tmp = tmp
        and self = "self\<lparr>end_frame := Some (s - 1)\<rparr>" and nm = "name self" and c = c
        and e = e and s = s and tasks = "[]", OF assms(2) _ _ ok] assms(1,6)
    by (simp add: chunks_def rs_def comp_def)
  have 1: "export_to_python_script Task_export job tmp self
        = Some (Inr (Chunks (map (\<lambda>t. projr (fst (Task_export t job tmp))) chunks)), self)"
    unfolding export_to_python_script_chunked [OF assms(1-4)] loop
    using chunk_of_restored [OF assms(3,4)] by simp
  have "\<lceil>real_of_int (e - s + 1) / real_of_int c\<rceil> = (e - s + 1 + c - 1) div c"
    by (rule ceiling_div [OF assms(2)])
  also have "e - s + 1 + c - 1 = e - s + c" by simp
  also have "(e - s + c) div c = int (length (chunk_ranges c e s))"
    using length_chunk_ranges [OF assms(2), of s e] assms(6) by simp
  finally have 2: "int (length chunks) = \<lceil>real_of_int (e - s + 1) / real_of_int c\<rceil>"
    by (simp add: chunks_def rs_def)
  have 3: "\<forall>i < length chunks.
          chunks ! i = self\<lparr>start_frame := Some (s + int i * c),
                             end_frame := Some (min (s + (int i + 1) * c - 1) e),
                             name := name self @ ''_'' @ str_int (s + int i * c) @ ''-''
                                     @ str_int (min (s + (int i + 1) * c - 1) e)\<rparr>"
    using nth_chunk_ranges [OF assms(2), of _ e s]
    by (simp add: chunks_def rs_def chunk_of_def)
  have 4: "\<forall>t \<in> set chunks. \<exists>a b. start_frame t = Some a \<and> end_frame t = Some b
          \<and> s \<le> a \<and> a \<le> b \<and> b \<le> e \<and> b - a + 1 \<le> c"
    using chunk_ranges_bounds [OF assms(2), of _ _ e s]
    by (auto simp add: chunks_def rs_def)
  have 5: "start_frame (hd chunks) = Some s"
    using ne chunk_ranges_Cons [OF assms(2,6)] by (simp add: chunks_def rs_def hd_map)
  have 6: "end_frame (last chunks) = Some e"
    using ne chunk_ranges_last [OF assms(2,6)] by (simp add: chunks_def rs_def last_map)
  have 7: "\<forall>i. Suc i < length chunks \<longrightarrow>
          start_frame (chunks ! Suc i) = Some (the (end_frame (chunks ! i)) + 1)"
    using chunk_ranges_contiguous [OF assms(2), of _ e s]
    by (simp add: chunks_def rs_def)
  have 8: "(\<Union>t \<in> set chunks. {the (start_frame t)..the (end_frame t)}) = {s..e}"
    using chunk_ranges_union [OF assms(2), of e s]
    by (simp add: chunks_def rs_def)
  from 1 2 3 4 5 6 7 8 show ?thesis by blast
qed

text \<open>
  C5. For a chunk size \<open>c > 0\<close> the call never loops forever, and whenever it returns
  normally the instance's \<open>start_frame\<close>, \<open>end_frame\<close> and \<open>name\<close> are what they were
  before the call; indeed the whole instance is.
\<close>

theorem export_to_python_script_restores:
  assumes "chunk_size self = Some c" "0 < c"
  shows "(\<exists>out. export_to_python_script Task_export job tmp self = Some out)
       \<and> (\<forall>r self'. export_to_python_script Task_export job tmp self = Some (Inr r, self') \<longrightarrow>
             start_frame self' = start_frame self \<and> end_frame self' = end_frame self
             \<and> name self' = name self \<and> self' = self)"
proof (cases "start_frame self")
  case None
  then show ?thesis
    using assms by (simp add: export_to_python_script_def sub_int_def Let_def)
next
  case (Some s)
  show ?thesis
  proof (cases "end_frame self")
    case None
    have "chunk_loop Task_export job tmp None (name self) [] (self\<lparr>end_frame := Some (s - 1)\<rparr>)
            = Some (Inl (TypeError (quoted ''<'' @ '' not supported between instances of ''
                             @ quoted ''int'' @ '' and '' @ quoted ''NoneType'')),
                    self\<lparr>end_frame := Some (s - 1)\<rparr>)"
      by (subst chunk_loop.simps) (simp add: lt_int_def type_name_def)
    then show ?thesis
      using assms Some None by (simp add: export_to_python_script_def sub_int_def Let_def)
  next
    case (Some e)
    obtain res st where loop: "chunk_loop Task_export job tmp (Some e) (name self) []
          (self\<lparr>end_frame := Some (s - 1)\<rparr>) = Some (res, st)"
      and st: "st = self\<lparr>end_frame := Some (s - 1)\<rparr> \<or> (\<exists>a b. st = chunk_of self (name self) (a, b))"
      using chunk_loop_outcome [where Task_export = Task_export and job = job and tmp = tmp
          and self = "self\<lparr>end_frame := Some (s - 1)\<rparr>" and nm = "name self" and c = c
          and e = e and s = s and tasks = "[]", OF assms(2)]
        assms(1) by auto
    have restored: "st\<lparr>start_frame := Some s, end_frame := Some e, name := name self\<rparr> = self"
      using st chunk_of_restored [OF \<open>start_frame self = Some s\<close> Some]
        end_update_restored [OF \<open>start_frame self = Some s\<close> Some] by auto
    show ?thesis
      unfolding export_to_python_script_chunked [OF assms \<open>start_frame self = Some s\<close> Some] loop
      using restored by (cases res) auto
  qed
qed

text \<open>
  C9. With \<open>chunk_size == 0\<close> the method does not split: it is the one call of the
  generic exporter on the instance itself, whatever the frame range, and returns that
  call's single artifact (or raises what it raises).
\<close>

theorem export_to_python_script_no_chunking:
  assumes "chunk_size self = Some 0"
  shows "export_to_python_script Task_export job tmp self =
           (case Task_export self job tmp of
              (Inl x, self') \<Rightarrow> Some (Inl x, self')
            | (Inr r, self') \<Rightarrow> Some (Inr (Single r), self'))"
  using assms by (simp add: export_to_python_script_def)

text \<open>
  C10. If the exporter raises for chunk \<open>k\<close> (having succeeded for the chunks before
  it), the exception leaves \<open>export_to_python_script\<close> and the instance is not
  restored: its \<open>start_frame\<close>, \<open>end_frame\<close> and \<open>name\<close> are those of chunk \<open>k\<close>, and the
  name differs from the name before the call.
\<close>

theorem export_to_python_script_error_path:
  assumes "chunk_size self = Some c" "0 < c"
    and "start_frame self = Some s" "end_frame self = Some e"
    and "s + int k * c \<le> e"
    and "\<forall>i < k. \<exists>y. fst (Task_export (chunk_of self (name self)
                      (s + int i * c, min (s + (int i + 1) * c - 1) e)) job tmp) = Inr y"
    and "fst (Task_export (chunk_of self (name self)
                      (s + int k * c, min (s + (int k + 1) * c - 1) e)) job tmp) = Inl x"
  shows "\<exists>self'. export_to_python_script Task_export job tmp self = Some (Inl x, self')
       \<and> start_frame self' = Some (s + int k * c)
       \<and> end_frame self' = Some (min (s + (int k + 1) * c - 1) e)
       \<and> name self' = name self @ ''_'' @ str_int (s + int k * c) @ ''-''
                       @ str_int (min (s + (int k + 1) * c - 1) e)
       \<and> name self' \<noteq> name self"
proof -
  define rs where "rs = chunk_ranges c e s"
  have k: "k < length rs"
    unfolding rs_def by (rule length_chunk_ranges_gt [OF assms(2,5)])
  have nth: "\<And>i. i < length rs \<Longrightarrow> rs ! i = (s + int i * c, min (s + (int i + 1) * c - 1) e)"
    unfolding rs_def by (rule nth_chunk_ranges [OF assms(2)])
  have split: "chunk_ranges c e s = take k rs @ rs ! k # drop (Suc k) rs"
    using id_take_nth_drop [OF k] by (simp add: rs_def)
  have pre: "\<forall>p \<in> set (take k rs).
      \<exists>y. fst (Task_export (chunk_of (self\<lparr>end_frame := Some (s - 1)\<rparr>) (name self) p) job tmp) = Inr y"
  proof
    fix p assume "p \<in> set (take k rs)"
    then obtain i where i: "i < k" "p = rs ! i"
      using k by (auto simp add: in_set_conv_nth)
    then have "p = (s + int i * c, min (s + (int i + 1) * c - 1) e)"
      using nth [of i] k by simp
    then show "\<exists>y. fst (Task_export (chunk_of (self\<lparr>end_frame := Some (s - 1)\<rparr>) (name self) p) job tmp) = Inr y"
      using assms(6) i(1) by simp
  qed
  have bad: "fst (Task_export (chunk_of (self\<lparr>end_frame := Some (s - 1)\<rparr>) (name self) (rs ! k)) job tmp) = Inl x"
    using assms(7) nth [OF k] by simp
  have loop: "chunk_loop Task_export job tmp (Some e) (name self) [] (self\<lparr>end_frame := Some (s - 1)\<rparr>)
      = Some (Inl x, chunk_of self (name self) (rs ! k))"
    using chunk_loop_fails [where Task_export = Task_export and job = job and tmp = tmp
        and self = "self\<lparr>end_frame := Some (s - 1)\<rparr>" and nm = "name self" and c = c
        and e = e and s = s and tasks = "[]" and pre = "take k rs" and r = "rs ! k"
        and post = "drop (Suc k) rs" and x = x, OF assms(2) _ _ split pre bad] assms(1) by simp
  show ?thesis
    unfolding export_to_python_script_chunked [OF assms(1-4)] loop
    using nth [OF k] by (simp add: chunk_of_def)
qed


lemma str_int_examples:
  "str_int 10 = ''10''" "str_int 17 = ''17''" "str_int 18 = ''18''" "str_int 25 = ''25''"
  by (simp_all add: str_int_def nat_digits.simps digit_char_def)

lemma export_to_python_script_returns:
  assumes "chunk_size self = Some c" "0 < c" "start_frame self = Some s" "end_frame self = Some e"
    and "\<forall>t. \<exists>x t'. Task_export t job tmp = (Inr x, t')"
  shows "\<exists>r st. export_to_python_script Task_export job tmp self = Some (Inr (Chunks r), st)"
proof -
  have ok: "\<forall>r \<in> set (chunk_ranges c e s).
      \<exists>x. fst (Task_export (chunk_of (self\<lparr>end_frame := Some (s - 1)\<rparr>) (name self) r) job tmp) = Inr x"
    using assms(5) by (metis fst_conv)
  show ?thesis
    unfolding export_to_python_script_chunked [OF assms(1-4)]
      chunk_loop_all_exported [where Task_export = Task_export and job = job and tmp = tmp
        and self = "self\<lparr>end_frame := Some (s - 1)\<rparr>" and nm = "name self" and c = c
        and e = e and s = s and tasks = "[]", OF assms(2) _ _ ok, simplified, OF assms(1)]
    by simp
qed

text \<open>
  On Task1 (frames 10 to 25, chunk size 8) with an exporter that names the script from
  the job and the task: two scripts, for the chunks 10 to 17 and 18 to 25.
\<close>

theorem export_to_python_script_chunks_witness:
  "export_to_python_script record_export ''test_export'' (Some ''./test_temp'') Task1
     = Some (Inr (Chunks [''test_export_Task1_10-17.py'', ''test_export_Task1_18-25.py'']), Task1)"
proof -
  have "\<forall>t. \<exists>x t'. record_export t ''test_export'' (Some ''./test_temp'') = (Inr x, t')"
    by (simp add: record_export_def)
  from export_to_python_script_chunks [of Task1 8 10 25 record_export "''test_export''" "Some ''./test_temp''"]
    this
  obtain chunks where
    r: "export_to_python_script record_export ''test_export'' (Some ''./test_temp'') Task1
        = Some (Inr (Chunks (map (\<lambda>t. projr (fst (record_export t ''test_export'' (Some ''./test_temp'')))) chunks)), Task1)"
    and len: "int (length chunks) = \<lceil>real_of_int (25 - 10 + 1) / real_of_int 8\<rceil>"
    and nth: "\<forall>i < length chunks.
          chunks ! i = Task1\<lparr>start_frame := Some (10 + int i * 8),
                             end_frame := Some (min (10 + (int i + 1) * 8 - 1) 25),
                             name := name Task1 @ ''_'' @ str_int (10 + int i * 8) @ ''-''
                                     @ str_int (min (10 + (int i + 1) * 8 - 1) 25)\<rparr>"
    by (auto simp add: Task1_def)
  have l: "length chunks = 2" using len by simp
  then obtain a b where ab: "chunks = [a, b]"
    by (metis (no_types) length_0_conv length_Suc_conv numeral_2_eq_2)
  have "a = chunks ! 0" "b = chunks ! 1" using ab by simp_all
  with nth l have "name a = ''Task1_10-17''" "name b = ''Task1_18-25''"
    by (simp_all add: Task1_def str_int_examples)
  then show ?thesis
    unfolding r ab by (simp add: record_export_def)
qed

theorem export_to_python_script_restores_witness:
  "\<exists>r self'. export_to_python_script record_export ''test_export'' None Task1 = Some (Inr r, self')
     \<and> start_frame self' = Some 10 \<and> end_frame self' = Some 25 \<and> name self' = ''Task1''"
proof -
  have cs: "chunk_size Task1 = Some 8" "(0::int) < 8" "start_frame Task1 = Some 10" "end_frame Task1 = Some 25"
    by (simp_all add: Task1_def)
  have "\<forall>t. \<exists>x t'. record_export t ''test_export'' None = (Inr x, t')"
    by (simp add: record_export_def)
  from export_to_python_script_returns [where Task_export = record_export and job = "''test_export''"
      and tmp = None, OF cs this]
  obtain r st where r: "export_to_python_script record_export ''test_export'' None Task1 = Some (Inr (Chunks r), st)"
    by blast
  from export_to_python_script_restores [OF cs(1,2), of record_export "''test_export''" None] r
  have "start_frame st = start_frame Task1 \<and> end_frame st = end_frame Task1 \<and> name st = name Task1"
    by blast
  with r show ?thesis by (auto simp add: Task1_def)
qed

theorem export_to_python_script_no_chunking_witness:
  "export_to_python_script record_export ''test_export'' None (Task1\<lparr>chunk_size := Some 0\<rparr>)
     = Some (Inr (Single ''test_export_Task1.py''), Task1\<lparr>chunk_size := Some 0\<rparr>)"
  using export_to_python_script_no_chunking [of "Task1\<lparr>chunk_size := Some 0\<rparr>" record_export "''test_export''" None]
  by (simp add: Task1_def record_export_def)

theorem export_to_python_script_error_path_witness:
  "\<exists>self'. export_to_python_script failing_export ''test_export'' None Task1
        = Some (Inl (OtherException ''cannot write script''), self')
     \<and> start_frame self' = Some 18 \<and> end_frame self' = Some 25
     \<and> name self' = ''Task1_18-25'' \<and> name self' \<noteq> ''Task1''"
  using export_to_python_script_error_path [of Task1 8 10 25 1 failing_export "''test_export''" None
      "OtherException ''cannot write script''"]
  by (simp add: Task1_def failing_export_def record_export_def chunk_of_def str_int_examples)

section \<open>Calling a task\<close>

lemma format_failed:
  "py_format (''Run method for task '' @ quoted ''{name}'' @ '' Failed for frames: {failed_frames}.'') []
      [(''name'', PStr n), (''failed_frames'', PList fs)]
   = Inr (''Run method for task '' @ quoted n @ '' Failed for frames: '' @ py_repr (PList fs) @ ''.'')"
  by (simp add: py_format_def get_value_def emit_def is_digit_def py_str_def quoted_def)

lemma run_frames_traced:
  "\<exists>calls out st'.
      run_frames (traced_run run) frames failed success (st, tr) = (out, (st', tr @ run_events calls))
    \<and> run_frames run frames failed success st = (out, st')
    \<and> map fst calls = take (length calls) frames
    \<and> (case out of
          Inr (failed', success') \<Rightarrow>
            map fst calls = frames \<and> (\<forall>c \<in> set calls. \<exists>r. snd c = Inr r)
            \<and> failed' = failed @ map fst (filter (\<lambda>c. snd c \<noteq> Inr 0) calls)
            \<and> success' = (if \<forall>c \<in> set calls. snd c = Inr 0 then success else 1)
        | Inl x \<Rightarrow>
            calls \<noteq> [] \<and> snd (last calls) = Inl x \<and> (\<forall>c \<in> set (butlast calls). \<exists>r. snd c = Inr r))"
proof (induction frames arbitrary: failed success st tr)
  case Nil
  show ?case
    by (rule exI [of _ "[]"]) (simp add: run_events_def)
next
  case (Cons f frames)
  obtain r st1 where run: "run f st = (r, st1)" by (cases "run f st")
  show ?case
  proof (cases r)
    case (Inl x)
    show ?thesis
      by (rule exI [of _ "[(f, Inl x)]"]) (simp add: run Inl traced_run_def run_events_def)
  next
    case (Inr v)
    define failed1 where "failed1 = (if v \<noteq> 0 then failed @ [f] else failed)"
    define success1 where "success1 = (if v \<noteq> 0 then 1 else success)"
    from Cons.IH [of failed1 success1 st1 "tr @ [RunCalled f (Inr v)]"]
    obtain calls out st' where
      t: "run_frames (traced_run run) frames failed1 success1 (st1, tr @ [RunCalled f (Inr v)])
            = (out, (st', (tr @ [RunCalled f (Inr v)]) @ run_events calls))"
      and u: "run_frames run frames failed1 success1 st1 = (out, st')"
      and p: "map fst calls = take (length calls) frames"
      and q: "(case out of
          Inr (failed', success') \<Rightarrow>
            map fst calls = frames \<and> (\<forall>c \<in> set calls. \<exists>r. snd c = Inr r)
            \<and> failed' = failed1 @ map fst (filter (\<lambda>c. snd c \<noteq> Inr 0) calls)
            \<and> success' = (if \<forall>c \<in> set calls. snd c = Inr 0 then success1 else 1)
        | Inl x \<Rightarrow>
            calls \<noteq> [] \<and> snd (last calls) = Inl x \<and> (\<forall>c \<in> set (butlast calls). \<exists>r. snd c = Inr r))"
      by blast
    have t': "run_frames (traced_run run) (f # frames) failed success (st, tr)
            = (out, (st', tr @ run_events ((f, Inr v) # calls)))"
      using t by (cases "v = 0") (simp_all add: run Inr traced_run_def run_events_def failed1_def success1_def)
    have u': "run_frames run (f # frames) failed success st = (out, st')"
      using u by (cases "v = 0") (simp_all add: run Inr failed1_def success1_def)
    have p': "map fst ((f, Inr v) # calls) = take (length ((f, Inr v) # calls)) (f # frames)"
      using p by simp
    have q': "(case out of
          Inr (failed', success') \<Rightarrow>
            map fst ((f, Inr v) # calls) = f # frames \<and> (\<forall>c \<in> set ((f, Inr v) # calls). \<exists>r. snd c = Inr r)
            \<and> failed' = failed @ map fst (filter (\<lambda>c. snd c \<noteq> Inr 0) ((f, Inr v) # calls))
            \<and> success' = (if \<forall>c \<in> set ((f, Inr v) # calls). snd c = Inr 0 then success else 1)
        | Inl x \<Rightarrow>
            (f, Inr v) # calls \<noteq> [] \<and> snd (last ((f, Inr v) # calls)) = Inl x
            \<and> (\<forall>c \<in> set (butlast ((f, Inr v) # calls)). \<exists>r. snd c = Inr r))"
      using q by (cases out) (force simp add: failed1_def success1_def)+
    from t' u' p' q' show ?thesis by blast
  qed
qed


lemma call_eq:
  "call self_of setup run st =
     (case setup st of
        (Inl e, st1) \<Rightarrow> (Inl e, [], st1)
      | (Inr u, st1) \<Rightarrow>
     (case call_body self_of run st1 of
        (Inl e, st2) \<Rightarrow>
          if is_Exception e then
            (Inr 1,
             [''Run method for task '' @ quoted (name (self_of st2)) @ '' Failed. Reason: '' @ str_exn e],
             st2)
          else (Inl e, [], st2)
      | (Inr (failed_frames, success), st2) \<Rightarrow>
          if success \<noteq> 0
          then (Inr success, [failed_message (name (self_of st2)) failed_frames], st2)
          else (Inr success, [], st2)))"
  unfolding call_def format_failed failed_message_def sum.case ..

lemma call_body_ints:
  assumes "start_frame (self_of st) = Some s" "end_frame (self_of st) = Some e"
  shows "call_body self_of run st = run_frames run [s..e] [] 0 st"
  using assms by (simp add: call_body_def add_int_def py_range_def)

text \<open>
  C6, as amended. When \<open>setup()\<close> returns and the frame bounds are the integers \<open>s\<close> and
  \<open>e\<close>, the trace of a call is \<open>setup\<close> first, then \<open>run\<close> on an initial part of the
  frames \<open>s\<close> to \<open>e\<close> in ascending order, each frame once. One of three cases holds.
  Either \<open>run\<close> returned for every frame of the range: then the result is 0 if all
  frames returned 0 and 1 otherwise, and in the second case the logged message lists
  exactly the frames that returned non-zero. Or the last call of \<open>run\<close> raised an
  exception that derives from \<open>Exception\<close>: then the later frames are not run, the
  exception is logged and the result is 1. Or the last call raised another exception
  (\<open>SystemExit\<close>, \<open>KeyboardInterrupt\<close>, \<open>GeneratorExit\<close>): then the later frames are not
  run and the exception leaves the call. The call returns 0 if and only if \<open>run\<close> was
  called on every frame of the range and returned 0 each time. The wrapped and the
  plain call give the same outcome, log and state.
\<close>

theorem call_runs_frames_until_raise:
  assumes "setup st = (Inr u, st1)"
    and "start_frame (self_of st1) = Some s" "end_frame (self_of st1) = Some e"
  shows "\<exists>out log st2 calls.
      call (self_of \<circ> fst) (traced_setup setup) (traced_run run) (st, [])
        = (out, log, (st2, SetupCalled # run_events calls))
    \<and> call self_of setup run st = (out, log, st2)
    \<and> map fst calls = take (length calls) [s..e]
    \<and> ((map fst calls = [s..e] \<and> (\<forall>c \<in> set calls. \<exists>r. snd c = Inr r)
          \<and> out = Inr (if \<forall>c \<in> set calls. snd c = Inr 0 then 0 else 1)
          \<and> log = (if out = Inr 0 then []
                    else [failed_message (name (self_of st2))
                            (map fst (filter (\<lambda>c. snd c \<noteq> Inr 0) calls))]))
       \<or> (\<exists>x. calls \<noteq> [] \<and> snd (last calls) = Inl x
             \<and> (\<forall>c \<in> set (butlast calls). \<exists>r. snd c = Inr r)
             \<and> is_Exception x
             \<and> out = Inr 1
             \<and> log = [''Run method for task '' @ quoted (name (self_of st2))
                        @ '' Failed. Reason: '' @ str_exn x])
       \<or> (\<exists>x. calls \<noteq> [] \<and> snd (last calls) = Inl x
             \<and> (\<forall>c \<in> set (butlast calls). \<exists>r. snd c = Inr r)
             \<and> \<not> is_Exception x
             \<and> out = Inl x
             \<and> log = []))
    \<and> (out = Inr 0 \<longleftrightarrow> map fst calls = [s..e] \<and> (\<forall>c \<in> set calls. snd c = Inr 0))"
proof -
  from run_frames_traced [of run "[s..e]" "[]" 0 st1 "[SetupCalled]"]
  obtain calls res st2 where
    t: "run_frames (traced_run run) [s..e] [] 0 (st1, [SetupCalled])
          = (res, (st2, [SetupCalled] @ run_events calls))"
    and r: "run_frames run [s..e] [] 0 st1 = (res, st2)"
    and p: "map fst calls = take (length calls) [s..e]"
    and q: "(case res of
          Inr (failed', success') \<Rightarrow>
            map fst calls = [s..e] \<and> (\<forall>c \<in> set calls. \<exists>r. snd c = Inr r)
            \<and> failed' = [] @ map fst (filter (\<lambda>c. snd c \<noteq> Inr 0) calls)
            \<and> success' = (if \<forall>c \<in> set calls. snd c = Inr 0 then 0 else 1)
        | Inl x \<Rightarrow>
            calls \<noteq> [] \<and> snd (last calls) = Inl x \<and> (\<forall>c \<in> set (butlast calls). \<exists>r. snd c = Inr r))"
    by blast
  have body_t: "call_body (self_of \<circ> fst) (traced_run run) (st1, [SetupCalled])
      = (res, (st2, SetupCalled # run_events calls))"
    using call_body_ints [of "self_of \<circ> fst" "(st1, [SetupCalled])" s e "traced_run run"] assms(2,3) t
    by simp
  have body: "call_body self_of run st1 = (res, st2)"
    using call_body_ints [of self_of st1 s e run] assms(2,3) r by simp
  have setup_t: "traced_setup setup (st, []) = (Inr u, (st1, [SetupCalled]))"
    by (simp add: traced_setup_def assms(1))
  show ?thesis
  proof (cases res)
    case (Inl x)
    have last: "calls \<noteq> []" "snd (last calls) = Inl x" "\<forall>c \<in> set (butlast calls). \<exists>r. snd c = Inr r"
      using q Inl by simp_all
    have "last calls \<in> set calls" using last(1) by simp
    then have nz: "\<not> (\<forall>c \<in> set calls. snd c = Inr 0)" using last(2) by force
    define out :: "exn + int" where "out = (if is_Exception x then Inr 1 else Inl x)"
    define log where "log = (if is_Exception x
        then [''Run method for task '' @ quoted (name (self_of st2)) @ '' Failed. Reason: '' @ str_exn x]
        else [])"
    have 1: "call (self_of \<circ> fst) (traced_setup setup) (traced_run run) (st, [])
        = (out, log, (st2, SetupCalled # run_events calls))"
      by (simp add: call_eq setup_t body_t Inl out_def log_def)
    have 2: "call self_of setup run st = (out, log, st2)"
      by (simp add: call_eq assms(1) body Inl out_def log_def)
    have 3: "out = Inr 0 \<longleftrightarrow> map fst calls = [s..e] \<and> (\<forall>c \<in> set calls. snd c = Inr 0)"
      using nz by (simp add: out_def)
    have 4: "(map fst calls = [s..e] \<and> (\<forall>c \<in> set calls. \<exists>r. snd c = Inr r)
          \<and> out = Inr (if \<forall>c \<in> set calls. snd c = Inr 0 then 0 else 1)
          \<and> log = (if out = Inr 0 then []
                    else [failed_message (name (self_of st2))
                            (map fst (filter (\<lambda>c. snd c \<noteq> Inr 0) calls))]))
       \<or> (\<exists>x. calls \<noteq> [] \<and> snd (last calls) = Inl x
             \<and> (\<forall>c \<in> set (butlast calls). \<exists>r. snd c = Inr r)
             \<and> is_Exception x
             \<and> out = Inr 1
             \<and> log = [''Run method for task '' @ quoted (name (self_of st2))
                        @ '' Failed. Reason: '' @ str_exn x])
       \<or> (\<exists>x. calls \<noteq> [] \<and> snd (last calls) = Inl x
             \<and> (\<forall>c \<in> set (butlast calls). \<exists>r. snd c = Inr r)
             \<and> \<not> is_Exception x
             \<and> out = Inl x
             \<and> log = [])"
    proof (cases "is_Exception x")
      case True
      then have "out = Inr 1" "log = [''Run method for task '' @ quoted (name (self_of st2))
                        @ '' Failed. Reason: '' @ str_exn x]"
        by (simp_all add: out_def log_def)
      with last True show ?thesis by blast
    next
      case False
      then have "out = Inl x" "log = []" by (simp_all add: out_def log_def)
      with last False show ?thesis by blast
    qed
    show ?thesis
    proof (intro exI conjI)
      show "call (self_of \<circ> fst) (traced_setup setup) (traced_run run) (st, [])
        = (out, log, (st2, SetupCalled # run_events calls))" by (rule 1)
      show "call self_of setup run st = (out, log, st2)" by (rule 2)
      show "map fst calls = take (length calls) [s..e]" by (rule p)
      show "(map fst calls = [s..e] \<and> (\<forall>c \<in> set calls. \<exists>r. snd c = Inr r)
          \<and> out = Inr (if \<forall>c \<in> set calls. snd c = Inr 0 then 0 else 1)
          \<and> log = (if out = Inr 0 then []
                    else [failed_message (name (self_of st2))
                            (map fst (filter (\<lambda>c. snd c \<noteq> Inr 0) calls))]))
       \<or> (\<exists>x. calls \<noteq> [] \<and> snd (last calls) = Inl x
             \<and> (\<forall>c \<in> set (butlast calls). \<exists>r. snd c = Inr r)
             \<and> is_Exception x
             \<and> out = Inr 1
             \<and> log = [''Run method for task '' @ quoted (name (self_of st2))
                        @ '' Failed. Reason: '' @ str_exn x])
       \<or> (\<exists>x. calls \<noteq> [] \<and> snd (last calls) = Inl x
             \<and> (\<forall>c \<in> set (butlast calls). \<exists>r. snd c = Inr r)
             \<and> \<not> is_Exception x
             \<and> out = Inl x
             \<and> log = [])" by (rule 4)
      show "out = Inr 0 \<longleftrightarrow> map fst calls = [s..e] \<and> (\<forall>c \<in> set calls. snd c = Inr 0)"
        by (rule 3)
    qed
  next
    case (Inr fs)
    obtain failed' success' where fs: "fs = (failed', success')" by (cases fs)
    have ok: "map fst calls = [s..e]" "\<forall>c \<in> set calls. \<exists>r. snd c = Inr r"
      and f: "failed' = map fst (filter (\<lambda>c. snd c \<noteq> Inr 0) calls)"
      and sc: "success' = (if \<forall>c \<in> set calls. snd c = Inr 0 then 0 else 1)"
      using q Inr fs by simp_all
    define out :: "exn + int" where "out = Inr success'"
    define log where "log = (if out = Inr 0 then []
         else [failed_message (name (self_of st2)) (map fst (filter (\<lambda>c. snd c \<noteq> Inr 0) calls))])"
    have 1: "call (self_of \<circ> fst) (traced_setup setup) (traced_run run) (st, [])
        = (out, log, (st2, SetupCalled # run_events calls))"
      by (simp add: call_eq setup_t body_t Inr fs f log_def out_def)
    have 2: "call self_of setup run st = (out, log, st2)"
      by (simp add: call_eq assms(1) body Inr fs f log_def out_def)
    have 3: "out = Inr 0 \<longleftrightarrow> map fst calls = [s..e] \<and> (\<forall>c \<in> set calls. snd c = Inr 0)"
      using ok(1) sc by (simp add: out_def)
    have o: "out = Inr (if \<forall>c \<in> set calls. snd c = Inr 0 then 0 else 1)"
      using sc by (simp add: out_def)
    have 4: "(map fst calls = [s..e] \<and> (\<forall>c \<in> set calls. \<exists>r. snd c = Inr r)
          \<and> out = Inr (if \<forall>c \<in> set calls. snd c = Inr 0 then 0 else 1)
          \<and> log = (if out = Inr 0 then []
                    else [failed_message (name (self_of st2))
                            (map fst (filter (\<lambda>c. snd c \<noteq> Inr 0) calls))]))
       \<or> (\<exists>x. calls \<noteq> [] \<and> snd (last calls) = Inl x
             \<and> (\<forall>c \<in> set (butlast calls). \<exists>r. snd c = Inr r)
             \<and> is_Exception x
             \<and> out = Inr 1
             \<and> log = [''Run method for task '' @ quoted (name (self_of st2))
                        @ '' Failed. Reason: '' @ str_exn x])
       \<or> (\<exists>x. calls \<noteq> [] \<and> snd (last calls) = Inl x
             \<and> (\<forall>c \<in> set (butlast calls). \<exists>r. snd c = Inr r)
             \<and> \<not> is_Exception x
             \<and> out = Inl x
             \<and> log = [])"
      using ok o log_def by blast
    show ?thesis
    proof (intro exI conjI)
      show "call (self_of \<circ> fst) (traced_setup setup) (traced_run run) (st, [])
        = (out, log, (st2, SetupCalled # run_events calls))" by (rule 1)
      show "call self_of setup run st = (out, log, st2)" by (rule 2)
      show "map fst calls = take (length calls) [s..e]" by (rule p)
      show "(map fst calls = [s..e] \<and> (\<forall>c \<in> set calls. \<exists>r. snd c = Inr r)
          \<and> out = Inr (if \<forall>c \<in> set calls. snd c = Inr 0 then 0 else 1)
          \<and> log = (if out = Inr 0 then []
                    else [failed_message (name (self_of st2))
                            (map fst (filter (\<lambda>c. snd c \<noteq> Inr 0) calls))]))
       \<or> (\<exists>x. calls \<noteq> [] \<and> snd (last calls) = Inl x
             \<and> (\<forall>c \<in> set (butlast calls). \<exists>r. snd c = Inr r)
             \<and> is_Exception x
             \<and> out = Inr 1
             \<and> log = [''Run method for task '' @ quoted (name (self_of st2))
                        @ '' Failed. Reason: '' @ str_exn x])
       \<or> (\<exists>x. calls \<noteq> [] \<and> snd (last calls) = Inl x
             \<and> (\<forall>c \<in> set (butlast calls). \<exists>r. snd c = Inr r)
             \<and> \<not> is_Exception x
             \<and> out = Inl x
             \<and> log = [])" by (rule 4)
      show "out = Inr 0 \<longleftrightarrow> map fst calls = [s..e] \<and> (\<forall>c \<in> set calls. snd c = Inr 0)"
        by (rule 3)
    qed
  qed
qed

lemma call_Task1:
  "call id example_setup example_run Task1
     = (Inr 1, [''Run method for task '' @ quoted ''Task1'' @ '' Failed for frames: [12, 19].''], Task1)"
  by code_simp

text \<open>
  On Task1 with a \<open>run\<close> that fails for the frames 12 and 19: the result is 1, the log
  names exactly these two frames, and \<open>run\<close> was called on the frames 10 to 25.
\<close>

theorem call_runs_frames_until_raise_witness:
  "\<exists>calls.
      call id example_setup example_run Task1
        = (Inr 1, [''Run method for task '' @ quoted ''Task1'' @ '' Failed for frames: [12, 19].''], Task1)
    \<and> call (id \<circ> fst) (traced_setup example_setup) (traced_run example_run) (Task1, [])
        = (Inr 1, [''Run method for task '' @ quoted ''Task1'' @ '' Failed for frames: [12, 19].''],
           (Task1, SetupCalled # run_events calls))
    \<and> map fst calls = [10..25]"
proof -
  have su: "example_setup Task1 = (Inr (), Task1)" by (simp add: example_setup_def)
  have fr: "start_frame (id Task1) = Some 10" "end_frame (id Task1) = Some 25"
    by (simp_all add: Task1_def)
  from call_runs_frames_until_raise [of example_setup Task1 "()" Task1 id 10 25 example_run, OF su fr]
  obtain out log st2 calls where
    t: "call (id \<circ> fst) (traced_setup example_setup) (traced_run example_run) (Task1, [])
          = (out, log, (st2, SetupCalled # run_events calls))"
    and c: "call id example_setup example_run Task1 = (out, log, st2)"
    and d: "(map fst calls = [10..25] \<and> (\<forall>c \<in> set calls. \<exists>r. snd c = Inr r)
          \<and> out = Inr (if \<forall>c \<in> set calls. snd c = Inr 0 then 0 else 1)
          \<and> log = (if out = Inr 0 then []
                    else [failed_message (name (id st2))
                            (map fst (filter (\<lambda>c. snd c \<noteq> Inr 0) calls))]))
       \<or> (\<exists>x. calls \<noteq> [] \<and> snd (last calls) = Inl x
             \<and> (\<forall>c \<in> set (butlast calls). \<exists>r. snd c = Inr r)
             \<and> is_Exception x
             \<and> out = Inr 1
             \<and> log = [''Run method for task '' @ quoted (name (id st2))
                        @ '' Failed. Reason: '' @ str_exn x])
       \<or> (\<exists>x. calls \<noteq> [] \<and> snd (last calls) = Inl x
             \<and> (\<forall>c \<in> set (butlast calls). \<exists>r. snd c = Inr r)
             \<and> \<not> is_Exception x
             \<and> out = Inl x
             \<and> log = [])"
    by blast
  from c have v: "out = Inr 1" "st2 = Task1"
    and l: "log = [''Run method for task '' @ quoted ''Task1'' @ '' Failed for frames: [12, 19].'']"
    unfolding call_Task1 by simp_all
  have a: "\<not> (\<exists>x. log = [''Run method for task '' @ quoted (name (id st2))
                        @ '' Failed. Reason: '' @ str_exn x])"
    unfolding l v by (simp add: Task1_def quoted_def)
  have b: "\<not> (\<exists>x. out = Inl x)" unfolding v by simp
  from d a b have "map fst calls = [10..25]" by blast
  with t show ?thesis unfolding call_Task1 v l by blast
qed

text \<open>
  C6 as stated fails. A \<open>KeyboardInterrupt\<close> raised by \<open>run\<close> at frame 12 is not turned
  into a result: it leaves the call, and nothing is logged. An ordinary exception
  raised at frame 12 gives the result 1, but in both cases \<open>run\<close> is called on the
  frames 10, 11 and 12 only, not on every frame of the range 10 to 25.
\<close>

theorem call_runs_every_frame_counterexample:
  "call (id \<circ> fst) (traced_setup example_setup) (traced_run interrupted_run) (Task1, [])
     = (Inl (KeyboardInterrupt []), [],
        (Task1, [SetupCalled, RunCalled 10 (Inr 0), RunCalled 11 (Inr 0),
                 RunCalled 12 (Inl (KeyboardInterrupt []))]))
   \<and> call id example_setup interrupted_run Task1 = (Inl (KeyboardInterrupt []), [], Task1)
   \<and> call (id \<circ> fst) (traced_setup example_setup) (traced_run raising_run) (Task1, [])
     = (Inr 1,
        [''Run method for task '' @ quoted ''Task1'' @ '' Failed. Reason: no such file''],
        (Task1, [SetupCalled, RunCalled 10 (Inr 0), RunCalled 11 (Inr 0),
                 RunCalled 12 (Inl (OtherException ''no such file''))]))"
  by code_simp

end
